theory Spec2Isabelle
  imports Complex_Main
begin

section \<open>JavaScript values used by the browser test service\<close>

text \<open>
  A JavaScript string is a sequence of UTF-16 code units; a code unit is written as its
  number. \<open>js\<close> turns a literal of ASCII characters into such a string. A thrown
  exception is an \<open>Error\<close> carrying its message; an operation that may throw returns
  \<open>error + 'a\<close>, with \<open>Inl\<close> for the exception.
\<close>

type_synonym jsstring = "nat list"

definition js :: "string \<Rightarrow> jsstring" where
  "js s = map of_char s"

datatype error = Error jsstring

type_synonym 'a res = "error + 'a"

fun message :: "error \<Rightarrow> jsstring" where
  "message (Error m) = m"

text \<open>\<open>String.prototype.includes\<close>: the argument occurs as a contiguous substring.\<close>

fun startsWith :: "jsstring \<Rightarrow> jsstring \<Rightarrow> bool" where
  "startsWith s [] = True"
| "startsWith [] (p # ps) = False"
| "startsWith (c # cs) (p # ps) = (c = p \<and> startsWith cs ps)"

fun includesStr :: "jsstring \<Rightarrow> jsstring \<Rightarrow> bool" where
  "includesStr [] p = (p = [])"
| "includesStr (c # cs) p = (startsWith (c # cs) p \<or> includesStr cs p)"

text \<open>
  \<open>String.prototype.trim\<close> removes white space and line terminators at both ends:
  U+0009 to U+000D, U+0020, U+00A0, U+1680, U+2000 to U+200A, U+2028, U+2029, U+202F,
  U+205F, U+3000 and U+FEFF.
\<close>

definition isSpace :: "nat \<Rightarrow> bool" where
  "isSpace c =
     ((9 \<le> c \<and> c \<le> 13) \<or> c = 32 \<or> c = 160 \<or> c = 5760 \<or> (8192 \<le> c \<and> c \<le> 8202) \<or>
      c = 8232 \<or> c = 8233 \<or> c = 8239 \<or> c = 8287 \<or> c = 12288 \<or> c = 65279)"

definition trim :: "jsstring \<Rightarrow> jsstring" where
  "trim s = rev (dropWhile isSpace (rev (dropWhile isSpace s)))"

text \<open>\<open>String.prototype.substring(0, n)\<close>.\<close>

definition substring0 :: "nat \<Rightarrow> jsstring \<Rightarrow> jsstring" where
  "substring0 n s = take n s"

text \<open>
  \<open>String.prototype.toLowerCase\<close>. On a string of ASCII characters it turns the letters A
  to Z into a to z and leaves the rest. On a string that holds a character beyond ASCII
  the result comes from the Unicode case tables of the engine, which are not part of the
  repository: it is the parameter \<open>lowerBeyondAscii\<close>.
\<close>

definition asciiLower :: "nat \<Rightarrow> nat" where
  "asciiLower c = (if 65 \<le> c \<and> c \<le> 90 then c + 32 else c)"

definition lowerCase :: "(jsstring \<Rightarrow> jsstring) \<Rightarrow> jsstring \<Rightarrow> jsstring" where
  "lowerCase lowerBeyond s =
     (if list_all (\<lambda>c. c < 128) s then map asciiLower s else lowerBeyond s)"

section \<open>The page, as the service can observe it\<close>

text \<open>
  The service sees a page only through Playwright calls. Every call may throw, and the
  page may change while it is examined, so the answer of a call depends on the moment at
  which it is made. A moment names the place of the call in the run (which step, which
  selector, which match); no two calls of the same operation are made at the same moment,
  so the answers to any two calls are independent. An element is reached either through
  an \<open>ElementHandle\<close> (numbered) or through the locator
  \<open>page.getByText(pattern).first()\<close>.
\<close>

type_synonym moment = "nat list"

datatype elem = Handle nat | First jsstring

text \<open>A DOM node as \<open>page.evaluate\<close> reads it inside the document.\<close>

record node =
  rectWidth :: real
  rectHeight :: real
  styleDisplay :: jsstring
  styleVisibility :: jsstring
  nodeTextContent :: jsstring
  nodeInnerText :: "jsstring option"
  nodeId :: jsstring
  nodeClassName :: "jsstring option"
  nodeTagName :: jsstring

record page =
  goto :: "jsstring \<Rightarrow> nat \<Rightarrow> unit res"
  waitForTimeout :: "nat \<Rightarrow> unit res"
  waitForLoadState :: "unit res"
  timeStart :: int
  timeLoaded :: int
  queryAll :: "moment \<Rightarrow> jsstring \<Rightarrow> nat list res"
  queryOne :: "moment \<Rightarrow> jsstring \<Rightarrow> nat option res"
  subQueryAll :: "moment \<Rightarrow> nat \<Rightarrow> jsstring \<Rightarrow> nat list res"
  isVisible :: "moment \<Rightarrow> elem \<Rightarrow> bool res"
  textContent :: "moment \<Rightarrow> elem \<Rightarrow> jsstring option res"
  innerText :: "moment \<Rightarrow> elem \<Rightarrow> jsstring res"
  isEnabled :: "moment \<Rightarrow> elem \<Rightarrow> bool res"
  textCount :: "moment \<Rightarrow> jsstring \<Rightarrow> nat res"
  allNodes :: "moment \<Rightarrow> node list res"
  regexTest :: "jsstring \<Rightarrow> jsstring \<Rightarrow> jsstring \<Rightarrow> bool"
  lowerBeyondAscii :: "jsstring \<Rightarrow> jsstring"

text \<open>
  \<open>goto\<close>, \<open>waitForTimeout\<close> and \<open>waitForLoadState\<close> are called once in a validation;
  \<open>timeStart\<close> and \<open>timeLoaded\<close> are its two readings of \<open>Date.now()\<close>. \<open>queryAll\<close> is
  \<open>page.$$\<close>, \<open>queryOne\<close> is \<open>page.$\<close> (\<open>None\<close> for \<open>null\<close>), \<open>subQueryAll\<close> is
  \<open>element.$$\<close>, \<open>textCount\<close> is \<open>page.getByText(p).count()\<close>, and \<open>allNodes\<close> is
  \<open>document.querySelectorAll('*')\<close> as reached by \<open>page.evaluate\<close> (\<open>Inl\<close> when the
  evaluation fails). \<open>regexTest source flags s\<close> is \<open>new RegExp(source, flags).test(s)\<close>:
  the regular expression engine is not part of the repository, and none of the
  configured expressions has the \<open>g\<close> or \<open>y\<close> flag, so a test has no state.
\<close>

definition toLowerCase :: "page \<Rightarrow> jsstring \<Rightarrow> jsstring" where
  "toLowerCase pg s = lowerCase (lowerBeyondAscii pg) s"

datatype pattern = Str jsstring | RegExp jsstring jsstring

record element_config =
  selectors :: "jsstring list"
  textPatterns :: "jsstring list"
  contentPatterns :: "pattern list"
  attributes :: "(jsstring \<times> jsstring) list"

record locate_result =
  element :: elem
  foundText :: jsstring
  foundSelector :: jsstring
  foundStrategy :: jsstring

text \<open>\<open>try { body } catch (e) { handler }\<close>.\<close>

definition catch :: "'a res \<Rightarrow> (error \<Rightarrow> 'a res) \<Rightarrow> 'a res" where
  "catch body handler = (case body of Inl e \<Rightarrow> handler e | Inr v \<Rightarrow> Inr v)"

section \<open>Availability: the stock flag\<close>

text \<open>
  The block under ``Determine stock status'' of \<open>testProductPage\<close>: the flag starts as
  \<open>null\<close> (\<open>None\<close>) and is assigned in at most one of two branches.
\<close>

definition stockStatus :: "page \<Rightarrow> jsstring \<Rightarrow> bool option" where
  "stockStatus pg text =
     (let stockText = toLowerCase pg text in
      if includesStr stockText (js ''in stock'') \<or> includesStr stockText (js ''available'')
      then Some True
      else if includesStr stockText (js ''out of stock'') \<or>
              includesStr stockText (js ''unavailable'')
      then Some False
      else None)"

section \<open>findElementWithMultipleStrategies\<close>

text \<open>
  The locator is given the moment \<open>m\<close> of its call. Inside it, the enumeration for the
  \<open>i\<close>-th selector is made at \<open>m @ [1, i]\<close> and its \<open>j\<close>-th match is inspected at
  \<open>m @ [1, i, j]\<close>; the \<open>i\<close>-th text pattern is tried at \<open>m @ [2, i]\<close>; the enumeration
  for the \<open>i\<close>-th attribute is made at \<open>m @ [3, i]\<close> and its \<open>j\<close>-th match is inspected
  at \<open>m @ [3, i, j]\<close>; the document scan and the selector it resolves are at \<open>m @ [4]\<close>.
\<close>

text \<open>\<open>a || b || ''\<close> on strings that may be \<open>null\<close>: the first non-empty one.\<close>

definition orEmpty :: "jsstring option \<Rightarrow> jsstring option \<Rightarrow> jsstring" where
  "orEmpty a b =
     (case a of
        Some s \<Rightarrow> if s \<noteq> [] then s else (case b of Some t \<Rightarrow> t | None \<Rightarrow> [])
      | None \<Rightarrow> (case b of Some t \<Rightarrow> t | None \<Rightarrow> []))"

text \<open>\<open>text?.trim() || ''\<close>.\<close>

definition trimOrEmpty :: "jsstring option \<Rightarrow> jsstring" where
  "trimOrEmpty t = (case t of Some s \<Rightarrow> trim s | None \<Rightarrow> [])"

text \<open>
  \<open>contentPatterns.some(...)\<close>: a regular expression is tested, a string is searched
  for without regard to case.
\<close>

definition matchesOne :: "page \<Rightarrow> jsstring \<Rightarrow> pattern \<Rightarrow> bool" where
  "matchesOne pg content p =
     (case p of
        RegExp source flags \<Rightarrow> regexTest pg source flags content
      | Str s \<Rightarrow> includesStr (toLowerCase pg content) (toLowerCase pg s))"

definition matchesPattern :: "page \<Rightarrow> pattern list \<Rightarrow> jsstring \<Rightarrow> bool" where
  "matchesPattern pg cps content = list_ex (matchesOne pg content) cps"

text \<open>
  Strategy 1, the loop over the elements of one selector, enumerated at \<open>m\<close>; \<open>j\<close> is
  the position of the next match. \<open>Inr (Some r)\<close> is \<open>return r\<close>, \<open>Inr None\<close> is the
  end of the loop, \<open>Inl e\<close> is an exception, which leaves the loop.
\<close>

fun cssScan :: "page \<Rightarrow> moment \<Rightarrow> pattern list \<Rightarrow> jsstring \<Rightarrow> nat \<Rightarrow> nat list \<Rightarrow> locate_result option res" where
  "cssScan pg m cps sel j [] = Inr None"
| "cssScan pg m cps sel j (h # hs) =
     (case isVisible pg (m @ [j]) (Handle h) of
        Inl e \<Rightarrow> Inl e
      | Inr vis \<Rightarrow>
          if vis then
            (case textContent pg (m @ [j]) (Handle h) of
               Inl e \<Rightarrow> Inl e
             | Inr t \<Rightarrow>
                 (let inner = (case innerText pg (m @ [j]) (Handle h) of
                                 Inl e \<Rightarrow> t
                               | Inr i \<Rightarrow> Some i);
                      content = trim (orEmpty inner t)
                  in if length content > 0 then
                       if length cps > 0 then
                         if matchesPattern pg cps content then
                           Inr (Some \<lparr>element = Handle h, foundText = content,
                                      foundSelector = sel, foundStrategy = js ''css-pattern''\<rparr>)
                         else cssScan pg m cps sel (Suc j) hs
                       else
                         Inr (Some \<lparr>element = Handle h, foundText = content,
                                    foundSelector = sel, foundStrategy = js ''css''\<rparr>)
                     else cssScan pg m cps sel (Suc j) hs))
          else cssScan pg m cps sel (Suc j) hs)"

text \<open>The body of the \<open>try\<close> for one selector.\<close>

definition cssTry :: "page \<Rightarrow> moment \<Rightarrow> pattern list \<Rightarrow> jsstring \<Rightarrow> locate_result option res" where
  "cssTry pg m cps sel =
     (case queryAll pg m sel of
        Inl e \<Rightarrow> Inl e
      | Inr matches \<Rightarrow> cssScan pg m cps sel 0 matches)"

fun cssStrategy :: "page \<Rightarrow> moment \<Rightarrow> pattern list \<Rightarrow> nat \<Rightarrow> jsstring list \<Rightarrow> locate_result option res" where
  "cssStrategy pg m cps i [] = Inr None"
| "cssStrategy pg m cps i (sel # sels) =
     (case catch (cssTry pg (m @ [1, i]) cps sel) (\<lambda>e. Inr None) of
        Inl e \<Rightarrow> Inl e
      | Inr (Some r) \<Rightarrow> Inr (Some r)
      | Inr None \<Rightarrow> cssStrategy pg m cps (Suc i) sels)"

text \<open>Strategy 2: \<open>getByText\<close>, one \<open>try\<close> for each text pattern.\<close>

definition textTry :: "page \<Rightarrow> moment \<Rightarrow> jsstring \<Rightarrow> locate_result option res" where
  "textTry pg m pat =
     (case textCount pg m pat of
        Inl e \<Rightarrow> Inl e
      | Inr n \<Rightarrow>
          if n > 0 then
            (case isVisible pg m (First pat) of
               Inl e \<Rightarrow> Inl e
             | Inr vis \<Rightarrow>
                 if vis then
                   (case textContent pg m (First pat) of
                      Inl e \<Rightarrow> Inl e
                    | Inr t \<Rightarrow>
                        Inr (Some \<lparr>element = First pat, foundText = trimOrEmpty t,
                                   foundSelector = js ''text:'' @ pat,
                                   foundStrategy = js ''text''\<rparr>))
                 else Inr None)
          else Inr None)"

fun textStrategy :: "page \<Rightarrow> moment \<Rightarrow> nat \<Rightarrow> jsstring list \<Rightarrow> locate_result option res" where
  "textStrategy pg m i [] = Inr None"
| "textStrategy pg m i (pat # pats) =
     (case catch (textTry pg (m @ [2, i]) pat) (\<lambda>e. Inr None) of
        Inl e \<Rightarrow> Inl e
      | Inr (Some r) \<Rightarrow> Inr (Some r)
      | Inr None \<Rightarrow> textStrategy pg m (Suc i) pats)"

text \<open>Strategy 3: the attribute selectors.\<close>

definition attrSelector :: "jsstring \<times> jsstring \<Rightarrow> jsstring" where
  \<open>attrSelector a = js ''['' @ fst a @ js ''*="'' @ snd a @ js ''"]''\<close>

fun attrScan :: "page \<Rightarrow> moment \<Rightarrow> jsstring \<Rightarrow> nat \<Rightarrow> nat list \<Rightarrow> locate_result option res" where
  "attrScan pg m sel j [] = Inr None"
| "attrScan pg m sel j (h # hs) =
     (case isVisible pg (m @ [j]) (Handle h) of
        Inl e \<Rightarrow> Inl e
      | Inr vis \<Rightarrow>
          if vis then
            (case textContent pg (m @ [j]) (Handle h) of
               Inl e \<Rightarrow> Inl e
             | Inr t \<Rightarrow>
                 (let content = trimOrEmpty t
                  in if length content > 0 then
                       Inr (Some \<lparr>element = Handle h, foundText = content,
                                  foundSelector = sel, foundStrategy = js ''attribute''\<rparr>)
                     else attrScan pg m sel (Suc j) hs))
          else attrScan pg m sel (Suc j) hs)"

definition attrTry :: "page \<Rightarrow> moment \<Rightarrow> jsstring \<times> jsstring \<Rightarrow> locate_result option res" where
  "attrTry pg m a =
     (case queryAll pg m (attrSelector a) of
        Inl e \<Rightarrow> Inl e
      | Inr matches \<Rightarrow> attrScan pg m (attrSelector a) 0 matches)"

fun attrStrategy :: "page \<Rightarrow> moment \<Rightarrow> nat \<Rightarrow> (jsstring \<times> jsstring) list \<Rightarrow> locate_result option res" where
  "attrStrategy pg m i [] = Inr None"
| "attrStrategy pg m i (a # as) =
     (case catch (attrTry pg (m @ [3, i]) a) (\<lambda>e. Inr None) of
        Inl e \<Rightarrow> Inl e
      | Inr (Some r) \<Rightarrow> Inr (Some r)
      | Inr None \<Rightarrow> attrStrategy pg m (Suc i) as)"

text \<open>Strategy 4: the scan of the whole document inside \<open>page.evaluate\<close>.\<close>

fun splitSpace :: "jsstring \<Rightarrow> jsstring list" where
  "splitSpace [] = [[]]"
| "splitSpace (c # cs) =
     (if c = 32 then [] # splitSpace cs
      else (case splitSpace cs of w # ws \<Rightarrow> (c # w) # ws | [] \<Rightarrow> [[c]]))"

definition synthSelector :: "page \<Rightarrow> node \<Rightarrow> jsstring" where
  "synthSelector pg n =
     (let selector =
        (if nodeId n \<noteq> [] then js ''#'' @ nodeId n
         else (case nodeClassName n of
                 Some cn \<Rightarrow>
                   if cn \<noteq> [] then
                     (case filter (\<lambda>c. length c > 0) (splitSpace cn) of
                        c # cs \<Rightarrow> js ''.'' @ c
                      | [] \<Rightarrow> [])
                   else []
               | None \<Rightarrow> []))
      in if selector = [] then toLowerCase pg (nodeTagName n) else selector)"

fun scanDocument :: "page \<Rightarrow> pattern list \<Rightarrow> node list \<Rightarrow> (jsstring \<times> jsstring \<times> jsstring) option" where
  "scanDocument pg cps [] = None"
| "scanDocument pg cps (n # ns) =
     (if rectWidth n = 0 \<or> rectHeight n = 0 then scanDocument pg cps ns
      else if styleDisplay n = js ''none'' \<or> styleVisibility n = js ''hidden''
      then scanDocument pg cps ns
      else
        (let cleanText = trim (orEmpty (Some (nodeTextContent n)) (nodeInnerText n))
         in if length cleanText > 0 \<and> matchesPattern pg cps cleanText
            then Some (cleanText, synthSelector pg n, nodeTagName n)
            else scanDocument pg cps ns))"

definition contentTry :: "page \<Rightarrow> moment \<Rightarrow> pattern list \<Rightarrow> locate_result option res" where
  "contentTry pg m cps =
     (case allNodes pg m of
        Inl e \<Rightarrow> Inl e
      | Inr nodes \<Rightarrow>
          (case scanDocument pg cps nodes of
             None \<Rightarrow> Inr None
           | Some (t, sel, tag) \<Rightarrow>
               (case catch (queryOne pg m sel) (\<lambda>e. Inr None) of
                  Inl e \<Rightarrow> Inl e
                | Inr None \<Rightarrow> Inr None
                | Inr (Some h) \<Rightarrow>
                    Inr (Some \<lparr>element = Handle h, foundText = t, foundSelector = sel,
                               foundStrategy = js ''content-search''\<rparr>))))"

definition contentStrategy :: "page \<Rightarrow> moment \<Rightarrow> pattern list \<Rightarrow> locate_result option res" where
  "contentStrategy pg m cps =
     (if length cps > 0 then catch (contentTry pg (m @ [4]) cps) (\<lambda>e. Inr None) else Inr None)"

text \<open>The four strategies in order; the first result is returned.\<close>

definition orElseTry :: "locate_result option res \<Rightarrow> locate_result option res \<Rightarrow> locate_result option res" where
  "orElseTry a b = (case a of Inl e \<Rightarrow> Inl e | Inr (Some r) \<Rightarrow> Inr (Some r) | Inr None \<Rightarrow> b)"

definition findElementWithMultipleStrategies :: "page \<Rightarrow> moment \<Rightarrow> element_config \<Rightarrow> locate_result option res" where
  "findElementWithMultipleStrategies pg m elementConfig =
     orElseTry (cssStrategy pg m (contentPatterns elementConfig) 0 (selectors elementConfig))
       (orElseTry (textStrategy pg m 0 (textPatterns elementConfig))
          (orElseTry (attrStrategy pg m 0 (attributes elementConfig))
             (contentStrategy pg m (contentPatterns elementConfig))))"

section \<open>The page result\<close>

record check =
  present :: bool
  selector :: jsstring
  strategy :: jsstring

record text_check = check +
  textOf :: jsstring

record cart_check = check +
  clickable :: bool

record variants_check = check +
  count :: nat

record avail_check = text_check +
  inStock :: "bool option"

record element_checks =
  title :: text_check
  price :: text_check
  addToCart :: cart_check
  description :: text_check
  variants :: variants_check
  availability :: avail_check

record performance_metrics =
  loadTime :: int
  timeToInteractive :: int

record page_result =
  url :: jsstring
  passed :: bool
  elements :: element_checks
  performance :: performance_metrics
  errors :: "jsstring list"

record test_settings =
  timeout :: nat
  viewportWidth :: nat
  viewportHeight :: nat

definition emptyTextCheck :: text_check where
  "emptyTextCheck = \<lparr>present = False, selector = [], strategy = [], textOf = []\<rparr>"

definition emptyElements :: element_checks where
  "emptyElements =
     \<lparr>title = emptyTextCheck,
      price = emptyTextCheck,
      addToCart = \<lparr>present = False, selector = [], strategy = [], clickable = False\<rparr>,
      description = emptyTextCheck,
      variants = \<lparr>present = False, selector = [], strategy = [], count = 0\<rparr>,
      availability = \<lparr>present = False, selector = [], strategy = [], textOf = [], inStock = None\<rparr>\<rparr>"

definition initialResult :: "jsstring \<Rightarrow> page_result" where
  "initialResult u =
     \<lparr>url = u, passed = False, elements = emptyElements,
      performance = \<lparr>loadTime = 0, timeToInteractive = 0\<rparr>, errors = []\<rparr>"

section \<open>The six element configurations of testProductPage\<close>

text \<open>
  The selector lists, text patterns, content patterns and attributes are those of the
  source. A backslash of a regular expression is written \<open>bs\<close>; the rupee, euro and
  pound signs of the price patterns are the code units 8377, 8364 and 163.
\<close>

definition bs :: jsstring where
  "bs = [92]"

definition titleConfig :: element_config where
  \<open>titleConfig =
     \<lparr>selectors =
        [js ''h1'', js ''h2'', js ''h3'',
         js ''[class*="title" i]'', js ''[class*="name" i]'', js ''[class*="product" i]'',
         js ''[data-testid*="title" i]'', js ''[data-testid*="name" i]'',
         js ''[data-testid*="product" i]'', js ''[id*="title" i]'', js ''[id*="name" i]'',
         js ''.product-title'', js ''.product-name'', js ''.item-title'', js ''.item-name'',
         js ''.pdp-title'', js ''.entry-title'', js ''.main-title'', js ''.page-title'',
         js ''[itemprop="name"]'', js ''[role="heading"]''],
      textPatterns = [],
      contentPatterns = [],
      attributes =
        [(js ''data-testid'', js ''title''), (js ''data-testid'', js ''name''),
         (js ''data-testid'', js ''product''), (js ''itemprop'', js ''name'')]\<rparr>\<close>

definition amount :: jsstring where
  "amount = bs @ js ''s*['' @ bs @ js ''d,]+'' @ bs @ js ''.?'' @ bs @ js ''d*''"

definition priceConfig :: element_config where
  \<open>priceConfig =
     \<lparr>selectors =
        [js ''[class*="price" i]:not([class*="compare" i]):not([class*="was" i]):not([class*="original" i])'',
         js ''[data-testid*="price" i]'', js ''[data-price]'', js ''[data-product-price]'',
         js ''.money'', js ''.currency'', js ''.cost'', js ''.amount'', js ''.value'',
         js ''[id*="price" i]'', js ''[itemprop="price"]'', js ''[itemprop="offers"] [itemprop="price"]'',
         js ''.current-price'', js ''.sale-price'', js ''.selling-price'', js ''.final-price'',
         js ''.product-price'', js ''.item-price'', js ''.pdp-price''],
      textPatterns = [],
      contentPatterns =
        [RegExp (bs @ js ''$'' @ amount) (js ''i''),
         RegExp ([8377] @ amount) (js ''i''),
         RegExp ([8364] @ amount) (js ''i''),
         RegExp ([163] @ amount) (js ''i''),
         RegExp (js ''USD'' @ amount) (js ''i''),
         RegExp (js ''INR'' @ amount) (js ''i''),
         RegExp (bs @ js ''b'' @ bs @ js ''d+'' @ bs @ js ''.'' @ bs @ js ''d{2}'' @ bs @ js ''b'') [],
         RegExp (bs @ js ''b'' @ bs @ js ''d{1,3}(,'' @ bs @ js ''d{3})*('' @ bs @ js ''.'' @ bs @ js ''d{2})?''
                 @ bs @ js ''b'') []],
      attributes =
        [(js ''data-testid'', js ''price''), (js ''data-price'', []), (js ''itemprop'', js ''price'')]\<rparr>\<close>

definition cartConfig :: element_config where
  \<open>cartConfig =
     \<lparr>selectors =
        [js ''button[type="submit"]'', js ''input[type="submit"]'',
         js ''[class*="add" i][class*="cart" i]'', js ''[class*="cart" i][class*="btn" i]'',
         js ''[class*="buy" i]'', js ''[class*="purchase" i]'', js ''[class*="shop" i]'',
         js ''button'', js ''input[type="button"]'', js ''[role="button"]'',
         js ''[data-testid*="add" i]'', js ''[data-testid*="cart" i]'', js ''[data-testid*="buy" i]''],
      textPatterns =
        [js ''Add to Cart'', js ''Add to Bag'', js ''Buy Now'', js ''Purchase'', js ''Add to Basket'',
         js ''Shop Now'', js ''Order Now'', js ''Add'', js ''Buy'', js ''Cart''],
      contentPatterns = [],
      attributes =
        [(js ''data-testid'', js ''add''), (js ''data-testid'', js ''cart''),
         (js ''data-action'', js ''add-to-cart'')]\<rparr>\<close>

definition descConfig :: element_config where
  \<open>descConfig =
     \<lparr>selectors =
        [js ''[class*="description" i]'', js ''[class*="details" i]'', js ''[class*="summary" i]'',
         js ''[data-testid*="description" i]'', js ''[data-testid*="details" i]'',
         js ''[id*="description" i]'', js ''[id*="details" i]'',
         js ''.product-description'', js ''.item-description'', js ''.product-details'',
         js ''.product-summary'', js ''.product-info'', js ''.description'',
         js ''[itemprop="description"]'', js ''.desc'', js ''.details'', js ''.summary''],
      textPatterns = [],
      contentPatterns = [],
      attributes = [(js ''data-testid'', js ''description''), (js ''itemprop'', js ''description'')]\<rparr>\<close>

definition variantConfig :: element_config where
  \<open>variantConfig =
     \<lparr>selectors =
        [js ''[class*="variant" i]'', js ''[class*="option" i]'', js ''[class*="choice" i]'',
         js ''[class*="size" i]'', js ''[class*="color" i]'', js ''[class*="style" i]'',
         js ''select'', js ''input[type="radio"]'', js ''input[type="checkbox"]'',
         js ''[data-testid*="variant" i]'', js ''[data-testid*="option" i]'',
         js ''.swatch'', js ''.picker'', js ''.selector''],
      textPatterns = [],
      contentPatterns = [],
      attributes =
        [(js ''data-testid'', js ''variant''), (js ''name'', js ''variant''), (js ''name'', js ''option'')]\<rparr>\<close>

definition availConfig :: element_config where
  \<open>availConfig =
     \<lparr>selectors =
        [js ''[class*="availability" i]'', js ''[class*="stock" i]'', js ''[class*="inventory" i]'',
         js ''[data-testid*="stock" i]'', js ''[data-testid*="availability" i]'',
         js ''.in-stock'', js ''.out-of-stock'', js ''.stock-status''],
      textPatterns =
        [js ''In Stock'', js ''Out of Stock'', js ''Available'', js ''Unavailable'',
         js ''In stock'', js ''out of stock'', js ''available'', js ''unavailable''],
      contentPatterns =
        [RegExp (js ''in'' @ bs @ js ''s*stock'') (js ''i''),
         RegExp (js ''out'' @ bs @ js ''s*of'' @ bs @ js ''s*stock'') (js ''i''),
         RegExp (js ''available'') (js ''i''),
         RegExp (js ''unavailable'') (js ''i''),
         RegExp (bs @ js ''d+'' @ bs @ js ''s*in'' @ bs @ js ''s*stock'') (js ''i''),
         RegExp (bs @ js ''d+'' @ bs @ js ''s*left'') (js ''i''),
         RegExp (bs @ js ''d+'' @ bs @ js ''s*remaining'') (js ''i'')],
      attributes = [(js ''data-testid'', js ''stock''), (js ''data-testid'', js ''availability'')]\<rparr>\<close>

definition containerSelector :: jsstring where
  \<open>containerSelector =
     js ''[class*="variant" i], [class*="option" i], .product-options, .product-variants''\<close>

definition optionSelector :: jsstring where
  \<open>optionSelector = js ''button, input, select, .swatch, [role="button"]''\<close>

section \<open>testProductPage\<close>

text \<open>
  The moments of the calls of one validation: the six locator calls, the clickability
  check, and the three calls of variant detection (the enumeration of containers, whose
  \<open>i\<close>-th container is asked for its options at \<open>atContainers @ [i]\<close>, the fall-back
  locator, and the count of the elements sharing its selector).
\<close>

abbreviation atTitle :: moment where "atTitle \<equiv> [1]"
abbreviation atPrice :: moment where "atPrice \<equiv> [2]"
abbreviation atCart :: moment where "atCart \<equiv> [3]"
abbreviation atClick :: moment where "atClick \<equiv> [4]"
abbreviation atDescription :: moment where "atDescription \<equiv> [5]"
abbreviation atContainers :: moment where "atContainers \<equiv> [6]"
abbreviation atFallback :: moment where "atFallback \<equiv> [7]"
abbreviation atRecount :: moment where "atRecount \<equiv> [8]"
abbreviation atAvailability :: moment where "atAvailability \<equiv> [9]"

text \<open>
  The result object is changed in place inside the \<open>try\<close>, so a step takes the result
  and returns it together with the exception that stopped it, if one did.
\<close>

type_synonym step = "page_result \<Rightarrow> error option \<times> page_result"

definition andThen :: "error option \<times> 's \<Rightarrow> ('s \<Rightarrow> error option \<times> 's) \<Rightarrow> error option \<times> 's" where
  "andThen a f = (case a of (Some e, r) \<Rightarrow> (Some e, r) | (None, r) \<Rightarrow> f r)"

text \<open>
  Navigation, the settle delay of 2000 ms, the wait for network idle whose rejection is
  swallowed, and the load time.
\<close>

definition navigate :: "page \<Rightarrow> jsstring \<Rightarrow> test_settings \<Rightarrow> step" where
  "navigate pg u settings r =
     (case goto pg u (timeout settings) of
        Inl e \<Rightarrow> (Some e, r)
      | Inr _ \<Rightarrow>
          (case waitForTimeout pg 2000 of
             Inl e \<Rightarrow> (Some e, r)
           | Inr _ \<Rightarrow>
               (case catch (waitForLoadState pg) (\<lambda>e. Inr ()) of
                  Inl e \<Rightarrow> (Some e, r)
                | Inr _ \<Rightarrow>
                    (None, r\<lparr>performance :=
                               (performance r)\<lparr>loadTime := timeLoaded pg - timeStart pg\<rparr>\<rparr>))))"

definition setTitle :: "locate_result option \<Rightarrow> page_result \<Rightarrow> page_result" where
  "setTitle found r =
     (case found of
        None \<Rightarrow> r
      | Some titleResult \<Rightarrow>
          r\<lparr>elements := (elements r)\<lparr>title :=
              (title (elements r))\<lparr>present := True, textOf := foundText titleResult,
                 selector := foundSelector titleResult,
                 strategy := foundStrategy titleResult\<rparr>\<rparr>\<rparr>)"

definition checkTitle :: "page \<Rightarrow> step" where
  "checkTitle pg r =
     (case findElementWithMultipleStrategies pg atTitle titleConfig of
        Inl e \<Rightarrow> (Some e, r)
      | Inr found \<Rightarrow> (None, setTitle found r))"

definition setPrice :: "locate_result option \<Rightarrow> page_result \<Rightarrow> page_result" where
  "setPrice found r =
     (case found of
        None \<Rightarrow> r
      | Some priceResult \<Rightarrow>
          r\<lparr>elements := (elements r)\<lparr>price :=
              (price (elements r))\<lparr>present := True, textOf := foundText priceResult,
                 selector := foundSelector priceResult,
                 strategy := foundStrategy priceResult\<rparr>\<rparr>\<rparr>)"

definition checkPrice :: "page \<Rightarrow> step" where
  "checkPrice pg r =
     (case findElementWithMultipleStrategies pg atPrice priceConfig of
        Inl e \<Rightarrow> (Some e, r)
      | Inr found \<Rightarrow> (None, setPrice found r))"

text \<open>
  \<open>await element.isEnabled() && await element.isVisible()\<close> inside its own \<open>try\<close>,
  whose handler answers \<open>true\<close>. Both calls are made at \<open>atClick\<close>, after the locator
  has returned.
\<close>

definition isClickable :: "page \<Rightarrow> elem \<Rightarrow> bool res" where
  "isClickable pg el =
     catch
       (case isEnabled pg atClick el of
          Inl e \<Rightarrow> Inl e
        | Inr enabled \<Rightarrow> if enabled then isVisible pg atClick el else Inr False)
       (\<lambda>e. Inr True)"

definition checkCart :: "page \<Rightarrow> step" where
  "checkCart pg r =
     (case findElementWithMultipleStrategies pg atCart cartConfig of
        Inl e \<Rightarrow> (Some e, r)
      | Inr None \<Rightarrow> (None, r)
      | Inr (Some cartResult) \<Rightarrow>
          (let r1 = r\<lparr>elements := (elements r)\<lparr>addToCart :=
                      (addToCart (elements r))\<lparr>present := True,
                         selector := foundSelector cartResult,
                         strategy := foundStrategy cartResult\<rparr>\<rparr>\<rparr>
           in case isClickable pg (element cartResult) of
                Inl e \<Rightarrow> (Some e, r1)
              | Inr c \<Rightarrow>
                  (None, r1\<lparr>elements := (elements r1)\<lparr>addToCart :=
                              (addToCart (elements r1))\<lparr>clickable := c\<rparr>\<rparr>\<rparr>)))"

definition setDescription :: "locate_result option \<Rightarrow> page_result \<Rightarrow> page_result" where
  "setDescription found r =
     (case found of
        None \<Rightarrow> r
      | Some descResult \<Rightarrow>
          r\<lparr>elements := (elements r)\<lparr>description :=
              (description (elements r))\<lparr>present := True,
                 textOf := substring0 200 (foundText descResult),
                 selector := foundSelector descResult,
                 strategy := foundStrategy descResult\<rparr>\<rparr>\<rparr>)"

definition checkDescription :: "page \<Rightarrow> step" where
  "checkDescription pg r =
     (case findElementWithMultipleStrategies pg atDescription descConfig of
        Inl e \<Rightarrow> (Some e, r)
      | Inr found \<Rightarrow> (None, setDescription found r))"

text \<open>
  Variant detection has its own \<open>try\<close>. Its three local variables
  (\<open>variantCount\<close>, \<open>variantSelector\<close>, \<open>variantStrategy\<close>) keep what was assigned
  before an exception. \<open>i\<close> is the position of the next container.
\<close>

type_synonym variant_locals = "nat \<times> jsstring \<times> jsstring"

fun scanContainers :: "page \<Rightarrow> nat \<Rightarrow> nat list \<Rightarrow> variant_locals \<Rightarrow> error option \<times> variant_locals" where
  "scanContainers pg i [] v = (None, v)"
| "scanContainers pg i (container # rest) (variantCount, variantSelector, variantStrategy) =
     (case subQueryAll pg (atContainers @ [i]) container optionSelector of
        Inl e \<Rightarrow> (Some e, (variantCount, variantSelector, variantStrategy))
      | Inr options \<Rightarrow>
          if length options > 0
          then (None, (variantCount + length options, js ''container-based'', js ''container''))
          else scanContainers pg (Suc i) rest (variantCount, variantSelector, variantStrategy))"

definition countIndividual :: "page \<Rightarrow> variant_locals \<Rightarrow> error option \<times> variant_locals" where
  "countIndividual pg v =
     (case v of (variantCount, variantSelector, variantStrategy) \<Rightarrow>
        if variantCount = 0 then
          (case findElementWithMultipleStrategies pg atFallback variantConfig of
             Inl e \<Rightarrow> (Some e, v)
           | Inr None \<Rightarrow> (None, v)
           | Inr (Some variantResult) \<Rightarrow>
               (case queryAll pg atRecount (foundSelector variantResult) of
                  Inl e \<Rightarrow> (Some e, v)
                | Inr allVariants \<Rightarrow>
                    (None, (length allVariants, foundSelector variantResult,
                            foundStrategy variantResult))))
        else (None, v))"

definition detectVariants :: "page \<Rightarrow> error option \<times> variant_locals" where
  "detectVariants pg =
     (case queryAll pg atContainers containerSelector of
        Inl e \<Rightarrow> (Some e, (0, [], []))
      | Inr variantContainers \<Rightarrow>
          (case scanContainers pg 0 variantContainers (0, [], []) of
             (Some e, v) \<Rightarrow> (Some e, v)
           | (None, v) \<Rightarrow> countIndividual pg v))"

definition checkVariants :: "page \<Rightarrow> step" where
  "checkVariants pg r =
     (case detectVariants pg of
        (thrown, (variantCount, variantSelector, variantStrategy)) \<Rightarrow>
          (let r1 = (case thrown of
                       Some e \<Rightarrow>
                         r\<lparr>errors := errors r @ [js ''Variant detection error: '' @ message e]\<rparr>
                     | None \<Rightarrow> r)
           in (None,
               if variantCount > 0 then
                 r1\<lparr>elements := (elements r1)\<lparr>variants :=
                      (variants (elements r1))\<lparr>present := True, count := variantCount,
                         selector := variantSelector, strategy := variantStrategy\<rparr>\<rparr>\<rparr>
               else r1)))"

definition setAvailability :: "page \<Rightarrow> locate_result option \<Rightarrow> page_result \<Rightarrow> page_result" where
  "setAvailability pg found r =
     (case found of
        None \<Rightarrow> r
      | Some availResult \<Rightarrow>
          r\<lparr>elements := (elements r)\<lparr>availability :=
              (availability (elements r))\<lparr>present := True,
                 textOf := foundText availResult,
                 selector := foundSelector availResult,
                 strategy := foundStrategy availResult,
                 inStock := (case stockStatus pg (foundText availResult) of
                               Some b \<Rightarrow> Some b
                             | None \<Rightarrow> inStock (availability (elements r)))\<rparr>\<rparr>\<rparr>)"

definition checkAvailability :: "page \<Rightarrow> step" where
  "checkAvailability pg r =
     (case findElementWithMultipleStrategies pg atAvailability availConfig of
        Inl e \<Rightarrow> (Some e, r)
      | Inr found \<Rightarrow> (None, setAvailability pg found r))"

definition setVerdict :: step where
  "setVerdict r =
     (None,
      r\<lparr>passed := present (title (elements r)) \<and> present (price (elements r)) \<and>
                   (present (addToCart (elements r)) \<or> present (variants (elements r)))\<rparr>)"

text \<open>The body of the \<open>try\<close>, and the function with its \<open>catch\<close>.\<close>

definition tryBody :: "page \<Rightarrow> jsstring \<Rightarrow> test_settings \<Rightarrow> error option \<times> page_result" where
  "tryBody pg u settings =
     andThen (andThen (andThen (andThen (andThen (andThen (andThen
       (navigate pg u settings (initialResult u))
       (checkTitle pg)) (checkPrice pg)) (checkCart pg)) (checkDescription pg))
       (checkVariants pg)) (checkAvailability pg)) setVerdict"

definition testProductPage :: "page \<Rightarrow> jsstring \<Rightarrow> test_settings \<Rightarrow> page_result" where
  "testProductPage pg u settings =
     (case tryBody pg u settings of
        (Some e, r) \<Rightarrow> r\<lparr>errors := errors r @ [message e]\<rparr>
      | (None, r) \<Rightarrow> r)"

section \<open>Auxiliary notions for the statements\<close>

text \<open>
  The element a configuration locates on a page when the locator is called at \<open>m\<close>,
  \<open>None\<close> when it is absent.
\<close>

definition located :: "page \<Rightarrow> moment \<Rightarrow> element_config \<Rightarrow> locate_result option" where
  "located pg m c =
     (case findElementWithMultipleStrategies pg m c of Inr r \<Rightarrow> r | Inl e \<Rightarrow> None)"

text \<open>The exception of the navigation or of the settle delay, if one of them throws.\<close>

definition navigationError :: "page \<Rightarrow> jsstring \<Rightarrow> test_settings \<Rightarrow> error option" where
  "navigationError pg u settings =
     (case goto pg u (timeout settings) of
        Inl e \<Rightarrow> Some e
      | Inr _ \<Rightarrow> (case waitForTimeout pg 2000 of Inl e \<Rightarrow> Some e | Inr _ \<Rightarrow> None))"

text \<open>The result as it stands after a successful navigation.\<close>

definition loadedResult :: "page \<Rightarrow> jsstring \<Rightarrow> page_result" where
  "loadedResult pg u =
     (initialResult u)\<lparr>performance :=
        (performance (initialResult u))\<lparr>loadTime := timeLoaded pg - timeStart pg\<rparr>\<rparr>"

text \<open>
  The trimmed text strategy 1 reads from an element handle inspected at \<open>m\<close>, and what
  can happen to a candidate inspected at \<open>m\<close>: it is \<open>accepted\<close> (visible, with
  non-empty trimmed text), or its inspection throws (reading its visibility throws, or
  it is visible and reading its text throws).
\<close>

definition elementContent :: "page \<Rightarrow> moment \<Rightarrow> nat \<Rightarrow> jsstring res" where
  "elementContent pg m h =
     (case textContent pg m (Handle h) of
        Inl e \<Rightarrow> Inl e
      | Inr t \<Rightarrow>
          Inr (trim (orEmpty (case innerText pg m (Handle h) of Inl e \<Rightarrow> t | Inr i \<Rightarrow> Some i) t)))"

definition contentText :: "page \<Rightarrow> moment \<Rightarrow> nat \<Rightarrow> jsstring" where
  "contentText pg m h = (case elementContent pg m h of Inl e \<Rightarrow> [] | Inr c \<Rightarrow> c)"

definition accepted :: "page \<Rightarrow> moment \<Rightarrow> nat \<Rightarrow> bool" where
  "accepted pg m h =
     (case isVisible pg m (Handle h) of
        Inl e \<Rightarrow> False
      | Inr vis \<Rightarrow> vis \<and> (case elementContent pg m h of Inl e \<Rightarrow> False | Inr c \<Rightarrow> c \<noteq> []))"

definition inspectionThrows :: "page \<Rightarrow> moment \<Rightarrow> nat \<Rightarrow> bool" where
  "inspectionThrows pg m h =
     (case isVisible pg m (Handle h) of
        Inl e \<Rightarrow> True
      | Inr vis \<Rightarrow> vis \<and> isl (textContent pg m (Handle h)))"

text \<open>A candidate of strategy 1: the moment of its inspection, its selector, its handle.\<close>

type_synonym candidate = "moment \<times> jsstring \<times> nat"

definition cssResult :: "page \<Rightarrow> candidate \<Rightarrow> locate_result" where
  "cssResult pg c =
     (case c of (m, sel, h) \<Rightarrow>
        \<lparr>element = Handle h, foundText = contentText pg m h, foundSelector = sel,
         foundStrategy = js ''css''\<rparr>)"

text \<open>
  The search as the specification words it: among all matches, in selector order and
  then in document order, the first element that is visible and has non-empty trimmed
  text. \<open>i\<close> is the position of the first selector of the list.
\<close>

definition specCandidates :: "page \<Rightarrow> moment \<Rightarrow> nat \<Rightarrow> jsstring list \<Rightarrow> candidate list" where
  "specCandidates pg m i sels =
     concat (map (\<lambda>(k, sel). case queryAll pg (m @ [1, k]) sel of
                                Inl e \<Rightarrow> []
                              | Inr hs \<Rightarrow> map (\<lambda>(j, h). (m @ [1, k, j], sel, h)) (enumerate 0 hs))
                 (enumerate i sels))"

definition specFirstVisible :: "page \<Rightarrow> moment \<Rightarrow> jsstring list \<Rightarrow> locate_result option" where
  "specFirstVisible pg m sels =
     map_option (cssResult pg)
       (find (\<lambda>c. case c of (mo, sel, h) \<Rightarrow> accepted pg mo h) (specCandidates pg m 0 sels))"

text \<open>
  How Playwright fails on handles. A detached node does not throw: its visibility is
  \<open>false\<close>. A call on a handle throws when the execution context of the handle is gone
  (the page navigated or was closed), and then every handle of the same enumeration
  throws as well. \<open>throwsToEnd pg m j hs\<close> says so of the matches \<open>hs\<close> of the enumeration
  made at \<open>m\<close>, the first of them at position \<open>j\<close>: once the inspection of a match
  throws, the inspection of every later match throws.
\<close>

fun allThrow :: "page \<Rightarrow> moment \<Rightarrow> nat \<Rightarrow> nat list \<Rightarrow> bool" where
  "allThrow pg m j [] = True"
| "allThrow pg m j (h # hs) = (inspectionThrows pg (m @ [j]) h \<and> allThrow pg m (Suc j) hs)"

fun throwsToEnd :: "page \<Rightarrow> moment \<Rightarrow> nat \<Rightarrow> nat list \<Rightarrow> bool" where
  "throwsToEnd pg m j [] = True"
| "throwsToEnd pg m j (h # hs) =
     (if inspectionThrows pg (m @ [j]) h then allThrow pg m (Suc j) hs
      else throwsToEnd pg m (Suc j) hs)"

definition enumerationBound :: "page \<Rightarrow> moment \<Rightarrow> jsstring \<Rightarrow> bool" where
  "enumerationBound pg m sel =
     (case queryAll pg m sel of Inl e \<Rightarrow> True | Inr hs \<Rightarrow> throwsToEnd pg m 0 hs)"

definition cssBound :: "page \<Rightarrow> moment \<Rightarrow> nat \<Rightarrow> jsstring list \<Rightarrow> bool" where
  "cssBound pg m i sels =
     list_all (\<lambda>(k, sel). enumerationBound pg (m @ [1, k]) sel) (enumerate i sels)"

definition attrBound :: "page \<Rightarrow> moment \<Rightarrow> nat \<Rightarrow> (jsstring \<times> jsstring) list \<Rightarrow> bool" where
  "attrBound pg m i as =
     list_all (\<lambda>(k, a). enumerationBound pg (m @ [3, k]) (attrSelector a)) (enumerate i as)"

definition contextBound :: "page \<Rightarrow> moment \<Rightarrow> element_config \<Rightarrow> bool" where
  "contextBound pg m c = (cssBound pg m 0 (selectors c) \<and> attrBound pg m 0 (attributes c))"

text \<open>
  The locator as the specification words it: every candidate is tried on its own, and a
  candidate whose inspection fails is passed over for the next candidate. \<open>inspectCss\<close>
  and \<open>inspectAttr\<close> are the inspection of one candidate of strategy 1 and of
  strategy 3.
\<close>

definition inspectCss :: "page \<Rightarrow> moment \<Rightarrow> pattern list \<Rightarrow> jsstring \<Rightarrow> nat \<Rightarrow> locate_result option res" where
  "inspectCss pg m cps sel h =
     (case isVisible pg m (Handle h) of
        Inl e \<Rightarrow> Inl e
      | Inr vis \<Rightarrow>
          if vis then
            (case elementContent pg m h of
               Inl e \<Rightarrow> Inl e
             | Inr content \<Rightarrow>
                 if content = [] then Inr None
                 else if cps = [] then
                   Inr (Some \<lparr>element = Handle h, foundText = content, foundSelector = sel,
                              foundStrategy = js ''css''\<rparr>)
                 else if matchesPattern pg cps content then
                   Inr (Some \<lparr>element = Handle h, foundText = content, foundSelector = sel,
                              foundStrategy = js ''css-pattern''\<rparr>)
                 else Inr None)
          else Inr None)"

definition absentOnThrow :: "locate_result option res \<Rightarrow> locate_result option" where
  "absentOnThrow a = (case a of Inl e \<Rightarrow> None | Inr r \<Rightarrow> r)"

fun specCssScan :: "page \<Rightarrow> moment \<Rightarrow> pattern list \<Rightarrow> jsstring \<Rightarrow> nat \<Rightarrow> nat list \<Rightarrow> locate_result option" where
  "specCssScan pg m cps sel j [] = None"
| "specCssScan pg m cps sel j (h # hs) =
     (case absentOnThrow (inspectCss pg (m @ [j]) cps sel h) of
        Some r \<Rightarrow> Some r
      | None \<Rightarrow> specCssScan pg m cps sel (Suc j) hs)"

fun specCssStrategy :: "page \<Rightarrow> moment \<Rightarrow> pattern list \<Rightarrow> nat \<Rightarrow> jsstring list \<Rightarrow> locate_result option" where
  "specCssStrategy pg m cps i [] = None"
| "specCssStrategy pg m cps i (sel # sels) =
     (case (case queryAll pg (m @ [1, i]) sel of
              Inl e \<Rightarrow> None
            | Inr hs \<Rightarrow> specCssScan pg (m @ [1, i]) cps sel 0 hs) of
        Some r \<Rightarrow> Some r
      | None \<Rightarrow> specCssStrategy pg m cps (Suc i) sels)"







text \<open>
  The first tier of variant counting as the specification words it: the options inside
  the first container found.
\<close>

definition specFirstContainerCount :: "page \<Rightarrow> nat" where
  "specFirstContainerCount pg =
     (case queryAll pg atContainers containerSelector of
        Inl e \<Rightarrow> 0
      | Inr [] \<Rightarrow> 0
      | Inr (container # rest) \<Rightarrow>
          (case subQueryAll pg (atContainers @ [0]) container optionSelector of
             Inl e \<Rightarrow> 0
           | Inr options \<Rightarrow> length options))"

definition emptyVariants :: variants_check where
  "emptyVariants = \<lparr>present = False, selector = [], strategy = [], count = 0\<rparr>"

text \<open>The second tier: the locator, then every element sharing the matched selector.\<close>

definition individualVariants :: "page \<Rightarrow> variants_check" where
  "individualVariants pg =
     (case located pg atFallback variantConfig of
        None \<Rightarrow> emptyVariants
      | Some variantResult \<Rightarrow>
          (case queryAll pg atRecount (foundSelector variantResult) of
             Inl e \<Rightarrow> emptyVariants
           | Inr allVariants \<Rightarrow>
               if length allVariants > 0
               then \<lparr>present = True, selector = foundSelector variantResult,
                     strategy = foundStrategy variantResult, count = length allVariants\<rparr>
               else emptyVariants))"

definition specVariants :: "page \<Rightarrow> variants_check" where
  "specVariants pg =
     (if specFirstContainerCount pg > 0
      then \<lparr>present = True, selector = js ''container-based'', strategy = js ''container'',
            count = specFirstContainerCount pg\<rparr>
      else individualVariants pg)"

section \<open>Sample pages\<close>

text \<open>
  A page on which every call succeeds and nothing is found. No regular expression is
  ever asked on it; lower-casing beyond ASCII is the identity, which is right for the
  texts of the sample pages: none holds a cased letter beyond ASCII.
\<close>

definition blankPage :: page where
  "blankPage =
     \<lparr>goto = (\<lambda>u t. Inr ()), waitForTimeout = (\<lambda>n. Inr ()), waitForLoadState = Inr (),
      timeStart = 1000, timeLoaded = 3500,
      queryAll = (\<lambda>m sel. Inr []), queryOne = (\<lambda>m sel. Inr None),
      subQueryAll = (\<lambda>m h sel. Inr []),
      isVisible = (\<lambda>m el. Inr True), textContent = (\<lambda>m el. Inr (Some [])),
      innerText = (\<lambda>m el. Inr []), isEnabled = (\<lambda>m el. Inr True),
      textCount = (\<lambda>m p. Inr 0), allNodes = (\<lambda>m. Inr []),
      regexTest = (\<lambda>source flags s. False), lowerBeyondAscii = (\<lambda>s. s)\<rparr>"

text \<open>A page on which every call throws: it has been closed.\<close>

definition closed :: error where
  "closed = Error (js ''Target page, context or browser has been closed'')"

definition brokenPage :: page where
  "brokenPage =
     \<lparr>goto = (\<lambda>u t. Inl closed), waitForTimeout = (\<lambda>n. Inl closed),
      waitForLoadState = Inl closed, timeStart = 0, timeLoaded = 0,
      queryAll = (\<lambda>m sel. Inl closed), queryOne = (\<lambda>m sel. Inl closed),
      subQueryAll = (\<lambda>m h sel. Inl closed),
      isVisible = (\<lambda>m el. Inl closed), textContent = (\<lambda>m el. Inl closed),
      innerText = (\<lambda>m el. Inl closed), isEnabled = (\<lambda>m el. Inl closed),
      textCount = (\<lambda>m p. Inl closed), allNodes = (\<lambda>m. Inl closed),
      regexTest = (\<lambda>source flags s. False), lowerBeyondAscii = (\<lambda>s. s)\<rparr>"

text \<open>
  A product page that does not change while it is examined: a heading, two \<open>.money\<close>
  elements of which the second is a price, a button, a description of 250 characters, a
  stock note reading ``Unavailable'', and one option container with two options. The
  network never goes idle and \<open>innerText\<close> is rejected. The trimmed texts of the page
  are ``Blue Widget'', ``Sale'', ``$19.99'', ``Add to Cart'', the description and
  ``Unavailable''; of the fifteen configured regular expressions, the first, seventh
  and eighth price expressions match ``$19.99'', \<open>/available/i\<close> and
  \<open>/unavailable/i\<close> match ``Unavailable'', and no other expression matches any of
  these texts.
\<close>

definition shopText :: "nat \<Rightarrow> jsstring" where
  "shopText h =
     (if h = 1 then js ''  Blue Widget ''
      else if h = 2 then js ''$19.99''
      else if h = 3 then js ''Add to Cart''
      else if h = 4 then replicate 250 120
      else if h = 5 then js ''Unavailable''
      else if h = 8 then js ''Sale''
      else [])"

definition shopQueryAll :: "jsstring \<Rightarrow> nat list res" where
  "shopQueryAll sel =
     (if sel = js ''h1'' then Inr [1]
      else if sel = js ''.money'' then Inr [8, 2]
      else if sel = js ''button'' then Inr [3]
      else if sel = js ''.description'' then Inr [4]
      else if sel = js ''.stock-status'' then Inr [5]
      else if sel = containerSelector then Inr [6]
      else Inr [])"

definition shopRegexTest :: "jsstring \<Rightarrow> jsstring \<Rightarrow> jsstring \<Rightarrow> bool" where
  "shopRegexTest source flags s =
     ((s = js ''$19.99'' \<and>
       (RegExp source flags = contentPatterns priceConfig ! 0 \<or>
        RegExp source flags = contentPatterns priceConfig ! 6 \<or>
        RegExp source flags = contentPatterns priceConfig ! 7)) \<or>
      (s = js ''Unavailable'' \<and>
       (RegExp source flags = contentPatterns availConfig ! 2 \<or>
        RegExp source flags = contentPatterns availConfig ! 3)))"

definition shopPage :: page where
  "shopPage =
     blankPage\<lparr>waitForLoadState := Inl (Error (js ''Timeout 5000ms exceeded'')),
       queryAll := (\<lambda>m. shopQueryAll),
       subQueryAll := (\<lambda>m h sel. if h = 6 \<and> sel = optionSelector then Inr [7, 9] else Inr []),
       textContent := (\<lambda>m el. case el of Handle h \<Rightarrow> Inr (Some (shopText h))
                                         | First p \<Rightarrow> Inr None),
       innerText := (\<lambda>m el. Inl (Error (js ''innerText is not available''))),
       regexTest := shopRegexTest\<rparr>"

definition shopUrl :: jsstring where
  "shopUrl = js ''https://shop.example/p/1''"

definition downUrl :: jsstring where
  "downUrl = js ''https://down.example/''"

definition settings0 :: test_settings where
  "settings0 = \<lparr>timeout = 30000, viewportWidth = 1280, viewportHeight = 720\<rparr>"

text \<open>
  The sample product page during a reload: the enumeration of the option containers
  throws, the calls before and after it answer as on the sample page.
\<close>

definition destroyed :: error where
  "destroyed = Error (js ''Execution context was destroyed, most likely because of a navigation'')"

definition reloadingPage :: page where
  "reloadingPage =
     shopPage\<lparr>queryAll := (\<lambda>m sel. if m = atContainers then Inl destroyed else shopQueryAll sel)\<rparr>"

text \<open>
  A page with three headings: the first is detached, so its visibility is \<open>false\<close>; the
  second is visible and holds only a no-break space; the third is visible and reads
  ``Blue Widget''.
\<close>

definition headingsPage :: page where
  "headingsPage =
     blankPage\<lparr>queryAll := (\<lambda>m sel. if sel = js ''h1'' then Inr [1, 2, 3] else Inr []),
       isVisible := (\<lambda>m el. Inr (el \<noteq> Handle 1)),
       textContent := (\<lambda>m el. if el = Handle 2 then Inr (Some [160])
                               else Inr (Some (js ''Blue Widget''))),
       innerText := (\<lambda>m el. if el = Handle 2 then Inr [160] else Inr (js ''Blue Widget''))\<rparr>"


text \<open>
  A page with one button, found by the locator as a visible element. At the
  clickability check, made later, it answers \<open>enabledThen\<close> and \<open>visibleThen\<close>.
\<close>

definition buttonPage :: "bool res \<Rightarrow> bool res \<Rightarrow> page" where
  "buttonPage enabledThen visibleThen =
     blankPage\<lparr>queryAll := (\<lambda>m sel. if sel = js ''button'' then Inr [3] else Inr []),
       isVisible := (\<lambda>m el. if m = atClick then visibleThen else Inr True),
       isEnabled := (\<lambda>m el. enabledThen),
       textContent := (\<lambda>m el. Inr (Some (js ''Add to Cart''))),
       innerText := (\<lambda>m el. Inr (js ''Add to Cart''))\<rparr>"

text \<open>
  A page with two option containers, both matched by \<open>[class*="option" i]\<close>: the first
  holds no option, the second holds three.
\<close>

definition optionClass :: jsstring where
  \<open>optionClass = js ''[class*="option" i]''\<close>

definition twoContainersPage :: page where
  "twoContainersPage =
     blankPage\<lparr>queryAll := (\<lambda>m sel. if sel = containerSelector \<or> sel = optionClass
                                   then Inr [10, 11] else Inr []),
       subQueryAll := (\<lambda>m h sel. if h = 11 \<and> sel = optionSelector then Inr [12, 13, 14]
                                  else Inr []),
       textContent := (\<lambda>m el. if el = Handle 10 then Inr (Some (js ''Size''))
                               else Inr (Some (js ''S M L''))),
       innerText := (\<lambda>m el. if el = Handle 10 then Inr (js ''Size'') else Inr (js ''S M L''))\<rparr>"

section \<open>runTest\<close>

datatype run_status = Running | Completed | Failed | Cancelled

record ai_analysis =
  summary :: jsstring
  recommendations :: "jsstring list"
  riskLevel :: jsstring
  score :: int

record image_record =
  imageUrl :: jsstring
  src :: jsstring
  loaded :: bool
  httpStatus :: nat
  altText :: jsstring
  width :: real
  height :: real
  imageErrors :: "jsstring list"

record error_detection =
  jsErrors :: "(jsstring \<times> jsstring \<times> int) list"
  networkErrors :: "(jsstring \<times> nat \<times> jsstring \<times> int) list"
  consoleWarnings :: "(jsstring \<times> int) list"

text \<open>
  What the document keeps of a page result. \<open>productPageTests\<close> is an array of the
  schema of \<open>models/TestResult.js\<close>: a pushed object is cast to that schema, which has no
  availability check and no selector or strategy in the other checks, and the store gives
  the entry an \<open>_id\<close>.
\<close>

record stored_text =
  storedPresent :: bool
  storedText :: jsstring

record stored_cart =
  storedCartPresent :: bool
  storedClickable :: bool

record stored_variants =
  storedVariantsPresent :: bool
  storedCount :: nat

record stored_elements =
  storedTitle :: stored_text
  storedPrice :: stored_text
  storedAddToCart :: stored_cart
  storedDescription :: stored_text
  storedVariants :: stored_variants

record stored_page =
  entryId :: jsstring
  storedUrl :: jsstring
  storedPassed :: bool
  storedElements :: stored_elements
  storedPerformance :: performance_metrics
  storedErrors :: "jsstring list"

definition castText :: "text_check \<Rightarrow> stored_text" where
  "castText c = \<lparr>storedPresent = present c, storedText = textOf c\<rparr>"

definition castPage :: "jsstring \<Rightarrow> page_result \<Rightarrow> stored_page" where
  "castPage oid r =
     \<lparr>entryId = oid, storedUrl = url r, storedPassed = passed r,
      storedElements =
        \<lparr>storedTitle = castText (title (elements r)),
         storedPrice = castText (price (elements r)),
         storedAddToCart =
           \<lparr>storedCartPresent = present (addToCart (elements r)),
            storedClickable = clickable (addToCart (elements r))\<rparr>,
         storedDescription = castText (description (elements r)),
         storedVariants =
           \<lparr>storedVariantsPresent = present (variants (elements r)),
            storedCount = count (variants (elements r))\<rparr>\<rparr>,
      storedPerformance = performance r, storedErrors = errors r\<rparr>"

record test_results =
  productPageTests :: "stored_page list"
  imageValidation :: "image_record list"
  errorDetection :: error_detection

record test_result =
  configurationId :: jsstring
  executionId :: jsstring
  status :: run_status
  startTime :: int
  endTime :: "int option"
  duration :: "int option"
  results :: test_results
  aiAnalysis :: "ai_analysis option"

text \<open>The configuration: \<open>productPages\<close> holds the \<open>url\<close> of each configured page.\<close>

record configuration =
  configId :: jsstring
  productPages :: "jsstring list"
  testSettings :: test_settings

text \<open>
  What surrounds one execution. Each of the three \<open>testResult.save()\<close> calls of
  \<open>runTest\<close> (after creation, on completion, in the handler) and each of the three
  \<open>new Date()\<close> readings runs at most once, so each has its own answer; a save is
  given the document it stores. \<open>pageDuring i\<close> is the page as it answers while the
  \<open>i\<close>-th product page is validated, and \<open>objectId i\<close> is the \<open>_id\<close> its entry
  receives. \<open>testImageLoading\<close> keeps every call inside a \<open>try\<close> whose handler only
  logs, so it returns its list; the three listeners fill \<open>listened\<close>.
\<close>

record world =
  uuid :: jsstring
  startClock :: int
  completedClock :: int
  failedClock :: int
  saveCreated :: "test_result \<Rightarrow> unit res"
  saveCompleted :: "test_result \<Rightarrow> unit res"
  saveFailed :: "test_result \<Rightarrow> unit res"
  initializeBrowser :: "unit res"
  newContext :: "unit res"
  newPage :: "unit res"
  pageDuring :: "nat \<Rightarrow> page"
  objectId :: "nat \<Rightarrow> jsstring"
  imageResults :: "image_record list"
  listened :: error_detection
  closeContext :: "unit res"
  analyzeTestResults :: "test_results \<Rightarrow> ai_analysis res"

text \<open>
  The run keeps the document in memory and a log of what happened to it: the values its
  status took (the schema default at creation, then each assignment), the saves with the
  document they stored or their failure, and the navigations to product pages.
\<close>

datatype event = Status run_status | Saved test_result | SaveFailed | Navigated jsstring

record run_state =
  testResult :: test_result
  log :: "event list"

type_synonym run_step = "run_state \<Rightarrow> error option \<times> run_state"

definition newTestResult :: "world \<Rightarrow> configuration \<Rightarrow> test_result" where
  "newTestResult w cfg =
     \<lparr>configurationId = configId cfg, executionId = uuid w, status = Running,
      startTime = startClock w, endTime = None, duration = None,
      results = \<lparr>productPageTests = [], imageValidation = [],
                 errorDetection = \<lparr>jsErrors = [], networkErrors = [], consoleWarnings = []\<rparr>\<rparr>,
      aiAnalysis = None\<rparr>"

definition initialState :: "world \<Rightarrow> configuration \<Rightarrow> run_state" where
  "initialState w cfg = \<lparr>testResult = newTestResult w cfg, log = [Status Running]\<rparr>"

definition persistCreated :: "world \<Rightarrow> run_step" where
  "persistCreated w st =
     (case saveCreated w (testResult st) of
        Inl e \<Rightarrow> (Some e, st\<lparr>log := log st @ [SaveFailed]\<rparr>)
      | Inr _ \<Rightarrow> (None, st\<lparr>log := log st @ [Saved (testResult st)]\<rparr>))"

definition openPage :: "world \<Rightarrow> run_step" where
  "openPage w st =
     (case initializeBrowser w of
        Inl e \<Rightarrow> (Some e, st)
      | Inr _ \<Rightarrow>
          (case newContext w of
             Inl e \<Rightarrow> (Some e, st)
           | Inr _ \<Rightarrow> (case newPage w of Inl e \<Rightarrow> (Some e, st) | Inr _ \<Rightarrow> (None, st))))"

text \<open>
  The loop over the configured product pages. \<open>testProductPage\<close> returns its result
  whatever happened inside, and the result is pushed, which casts it.
\<close>

fun testPages :: "world \<Rightarrow> test_settings \<Rightarrow> nat \<Rightarrow> jsstring list \<Rightarrow> run_state \<Rightarrow> run_state" where
  "testPages w settings i [] st = st"
| "testPages w settings i (u # us) st =
     (let pageResult = testProductPage (pageDuring w i) u settings;
          tr = testResult st
      in testPages w settings (Suc i) us
           (st\<lparr>testResult :=
                 tr\<lparr>results := (results tr)\<lparr>productPageTests :=
                       productPageTests (results tr) @
                         [castPage (objectId w i) pageResult]\<rparr>\<rparr>,
               log := log st @ [Navigated u]\<rparr>))"

definition validatePages :: "world \<Rightarrow> configuration \<Rightarrow> run_step" where
  "validatePages w cfg st = (None, testPages w (testSettings cfg) 0 (productPages cfg) st)"

definition collect :: "world \<Rightarrow> run_step" where
  "collect w st =
     (let tr = testResult st
      in (None, st\<lparr>testResult :=
                     tr\<lparr>results := (results tr)\<lparr>imageValidation := imageResults w,
                                                 errorDetection := listened w\<rparr>\<rparr>\<rparr>))"

definition closeAndAnalyze :: "world \<Rightarrow> run_step" where
  "closeAndAnalyze w st =
     (case closeContext w of
        Inl e \<Rightarrow> (Some e, st)
      | Inr _ \<Rightarrow>
          (case analyzeTestResults w (results (testResult st)) of
             Inl e \<Rightarrow> (Some e, st)
           | Inr analysis \<Rightarrow>
               (None, st\<lparr>testResult := (testResult st)\<lparr>aiAnalysis := Some analysis\<rparr>\<rparr>)))"

definition complete :: "world \<Rightarrow> run_step" where
  "complete w st =
     (let tr = (testResult st)\<lparr>status := Completed, endTime := Some (completedClock w),
                 duration := Some (completedClock w - startTime (testResult st))\<rparr>;
          st1 = st\<lparr>testResult := tr, log := log st @ [Status Completed]\<rparr>
      in case saveCompleted w tr of
           Inl e \<Rightarrow> (Some e, st1\<lparr>log := log st1 @ [SaveFailed]\<rparr>)
         | Inr _ \<Rightarrow> (None, st1\<lparr>log := log st1 @ [Saved tr]\<rparr>))"

definition tryRun :: "world \<Rightarrow> configuration \<Rightarrow> error option \<times> run_state" where
  "tryRun w cfg =
     andThen (andThen (andThen (andThen (andThen
       (persistCreated w (initialState w cfg))
       (openPage w)) (validatePages w cfg)) (collect w)) (closeAndAnalyze w)) (complete w)"

text \<open>
  The handler: the status becomes \<open>failed\<close>, end time and duration are stamped, the
  document is saved, and the exception is thrown again. When that save throws, its
  exception is the one that leaves \<open>runTest\<close>.
\<close>

definition handleFailure :: "world \<Rightarrow> error \<Rightarrow> run_state \<Rightarrow> test_result res \<times> run_state" where
  "handleFailure w e st =
     (let tr = (testResult st)\<lparr>status := Failed, endTime := Some (failedClock w),
                 duration := Some (failedClock w - startTime (testResult st))\<rparr>;
          st1 = st\<lparr>testResult := tr, log := log st @ [Status Failed]\<rparr>
      in case saveFailed w tr of
           Inl e2 \<Rightarrow> (Inl e2, st1\<lparr>log := log st1 @ [SaveFailed]\<rparr>)
         | Inr _ \<Rightarrow> (Inl e, st1\<lparr>log := log st1 @ [Saved tr]\<rparr>))"

definition runTest :: "world \<Rightarrow> configuration \<Rightarrow> test_result res \<times> run_state" where
  "runTest w cfg =
     (case tryRun w cfg of
        (None, st) \<Rightarrow> (Inr (testResult st), st)
      | (Some e, st) \<Rightarrow> handleFailure w e st)"

text \<open>The values the status took, in order, and whether a product page was visited.\<close>

fun statuses :: "event list \<Rightarrow> run_status list" where
  "statuses [] = []"
| "statuses (Status s # evs) = s # statuses evs"
| "statuses (ev # evs) = statuses evs"

fun isNavigated :: "event \<Rightarrow> bool" where
  "isNavigated (Navigated u) = True"
| "isNavigated ev = False"

fun isSaved :: "event \<Rightarrow> bool" where
  "isSaved (Saved t) = True"
| "isSaved ev = False"

text \<open>
  What holds of the run at every point before the completion step: the status has only
  been \<open>running\<close>, the start time is the first clock reading, and when the steps so
  far succeeded, or a product page was visited, the log begins with the creation and the
  successful save of the running document.
\<close>

definition beforeCompletion :: "world \<Rightarrow> configuration \<Rightarrow> error option \<times> run_state \<Rightarrow> bool" where
  "beforeCompletion w cfg a =
     (case a of (thrown, st) \<Rightarrow>
        statuses (log st) = [Running] \<and> status (testResult st) = Running \<and>
        startTime (testResult st) = startClock w \<and> hd (log st) = Status Running \<and>
        length (log st) \<ge> 2 \<and>
        (if thrown = None \<or> list_ex isNavigated (log st)
         then take 2 (log st) = [Status Running, Saved (newTestResult w cfg)]
         else True))"

text \<open>The steps of the \<open>try\<close> that come before the completion step.\<close>

definition beforeComplete :: "world \<Rightarrow> configuration \<Rightarrow> error option \<times> run_state" where
  "beforeComplete w cfg =
     andThen (andThen (andThen (andThen
       (persistCreated w (initialState w cfg))
       (openPage w)) (validatePages w cfg)) (collect w)) (closeAndAnalyze w)"

definition pagesOf :: "run_state \<Rightarrow> stored_page list" where
  "pagesOf st = productPageTests (results (testResult st))"

section \<open>Sample executions\<close>

definition config0 :: configuration where
  "config0 =
     \<lparr>configId = js ''cfg-1'', productPages = [downUrl, shopUrl],
      testSettings = settings0\<rparr>"

definition analysis0 :: ai_analysis where
  "analysis0 = \<lparr>summary = js ''Test completed'', recommendations = [], riskLevel = js ''medium'',
                score = 75\<rparr>"

text \<open>
  An execution where everything outside the pages works; the first configured page cannot
  be reached, the second is the sample product page.
\<close>

definition world0 :: world where
  "world0 =
     \<lparr>uuid = js ''exec-1'', startClock = 100, completedClock = 900, failedClock = 950,
      saveCreated = (\<lambda>t. Inr ()), saveCompleted = (\<lambda>t. Inr ()), saveFailed = (\<lambda>t. Inr ()),
      initializeBrowser = Inr (), newContext = Inr (), newPage = Inr (),
      pageDuring = (\<lambda>i. if i = 0 then brokenPage else shopPage),
      objectId = (\<lambda>i. if i = 0 then js ''65f0a1'' else js ''65f0a2''),
      imageResults = [], listened = \<lparr>jsErrors = [], networkErrors = [], consoleWarnings = []\<rparr>,
      closeContext = Inr (), analyzeTestResults = (\<lambda>r. Inr analysis0)\<rparr>"

text \<open>The same execution, but the save on completion is rejected.\<close>

definition storeError :: error where
  "storeError = Error (js ''TestResult validation failed'')"

definition flakyWorld :: world where
  "flakyWorld = world0\<lparr>saveCompleted := (\<lambda>t. Inl storeError)\<rparr>"

text \<open>The same execution, but the store rejects every save.\<close>

definition downWorld :: world where
  "downWorld = world0\<lparr>saveCreated := (\<lambda>t. Inl storeError),
     saveCompleted := (\<lambda>t. Inl storeError), saveFailed := (\<lambda>t. Inl storeError)\<rparr>"

section \<open>Strings\<close>

lemma js_eq [simp]: "js a = js b \<longleftrightarrow> a = b"
  by (simp add: js_def inj_on_def)

lemma js_Nil [simp]: "js [] = []"
  by (simp add: js_def)

lemma js_empty [simp]: "js a = [] \<longleftrightarrow> a = []" "[] = js a \<longleftrightarrow> a = []"
  by (auto simp: js_def)

lemma js_append: "js (a @ b) = js a @ js b"
  by (simp add: js_def)

lemma startsWith_iff: "startsWith s p \<longleftrightarrow> (\<exists>t. s = p @ t)"
  by (induction s p rule: startsWith.induct) auto

lemma includesStr_iff: "includesStr s p \<longleftrightarrow> (\<exists>a b. s = a @ p @ b)"
proof (induction s)
  case Nil
  then show ?case by auto
next
  case (Cons c cs)
  show ?case
  proof
    assume "includesStr (c # cs) p"
    then consider "startsWith (c # cs) p" | "includesStr cs p" by auto
    then show "\<exists>a b. c # cs = a @ p @ b"
    proof cases
      case 1
      then obtain t where "c # cs = p @ t" by (auto simp: startsWith_iff)
      then have "c # cs = [] @ p @ t" by simp
      then show ?thesis by blast
    next
      case 2
      then obtain a b where "cs = a @ p @ b" using Cons.IH by auto
      then have "c # cs = (c # a) @ p @ b" by simp
      then show ?thesis by blast
    qed
  next
    assume "\<exists>a b. c # cs = a @ p @ b"
    then obtain a b where ab: "c # cs = a @ p @ b" by auto
    show "includesStr (c # cs) p"
    proof (cases a)
      case Nil
      with ab have "startsWith (c # cs) p" by (auto simp: startsWith_iff)
      then show ?thesis by simp
    next
      case (Cons x xs)
      with ab have "cs = xs @ p @ b" by simp
      then have "includesStr cs p" using Cons.IH by auto
      then show ?thesis by simp
    qed
  qed
qed

text \<open>Whatever contains ``unavailable'' contains ``available''.\<close>

lemma unavailable_available:
  assumes "includesStr t (js ''unavailable'')"
  shows "includesStr t (js ''available'')"
proof -
  from assms obtain a b where "t = a @ js ''unavailable'' @ b"
    by (auto simp: includesStr_iff)
  moreover have "js ''unavailable'' = js ''un'' @ js ''available''"
    by (simp add: js_append [symmetric])
  ultimately have "t = (a @ js ''un'') @ js ''available'' @ b" by simp
  then show ?thesis unfolding includesStr_iff by blast
qed

text \<open>
  So the second branch of the stock status is never taken for ``unavailable'': the first
  branch has already answered \<open>true\<close>.
\<close>

lemma stockStatus_unavailable:
  "includesStr (toLowerCase pg t) (js ''unavailable'') \<Longrightarrow> stockStatus pg t = Some True"
  by (simp add: stockStatus_def Let_def unavailable_available)

section \<open>The locator never throws\<close>

lemma cssStrategy_total: "\<exists>r. cssStrategy pg m cps i sels = Inr r"
  by (induction sels arbitrary: i) (auto simp: catch_def split: sum.splits option.splits)

lemma textStrategy_total: "\<exists>r. textStrategy pg m i pats = Inr r"
  by (induction pats arbitrary: i) (auto simp: catch_def split: sum.splits option.splits)

lemma attrStrategy_total: "\<exists>r. attrStrategy pg m i as = Inr r"
  by (induction as arbitrary: i) (auto simp: catch_def split: sum.splits option.splits)

lemma contentStrategy_total: "\<exists>r. contentStrategy pg m cps = Inr r"
  by (auto simp: contentStrategy_def contentTry_def catch_def
      split: sum.splits option.splits prod.splits)

lemma find_total: "\<exists>r. findElementWithMultipleStrategies pg m c = Inr r"
  using cssStrategy_total [of pg m "contentPatterns c" 0 "selectors c"]
    textStrategy_total [of pg m 0 "textPatterns c"] attrStrategy_total [of pg m 0 "attributes c"]
    contentStrategy_total [of pg m "contentPatterns c"]
  by (auto simp: findElementWithMultipleStrategies_def orElseTry_def
      split: sum.splits option.splits)

lemma find_located: "findElementWithMultipleStrategies pg m c = Inr (located pg m c)"
  using find_total [of pg m c] by (auto simp: located_def)

section \<open>The validator, step by step\<close>

text \<open>
  Since the locator returns, the checks of title, price, description and availability
  are assignments; the add-to-cart and variant checks never end the \<open>try\<close> either.
\<close>

lemma checkTitle_eq: "checkTitle pg r = (None, setTitle (located pg atTitle titleConfig) r)"
  by (simp add: checkTitle_def find_located)

lemma checkPrice_eq: "checkPrice pg r = (None, setPrice (located pg atPrice priceConfig) r)"
  by (simp add: checkPrice_def find_located)

lemma checkDescription_eq: "checkDescription pg r = (None, setDescription (located pg atDescription descConfig) r)"
  by (simp add: checkDescription_def find_located)

lemma checkAvailability_eq: "checkAvailability pg r = (None, setAvailability pg (located pg atAvailability availConfig) r)"
  by (simp add: checkAvailability_def find_located)

lemma isClickable_eq: "isClickable pg el =
   Inr (case isEnabled pg atClick el of Inl e \<Rightarrow> True
        | Inr enabled \<Rightarrow>
            enabled \<and> (case isVisible pg atClick el of Inl e \<Rightarrow> True | Inr v \<Rightarrow> v))"
  by (auto simp: isClickable_def catch_def split: sum.splits)

lemma checkCart_fst: "fst (checkCart pg r) = None"
  by (auto simp: checkCart_def find_located isClickable_eq Let_def split: option.splits sum.splits)

lemma checkVariants_fst: "fst (checkVariants pg r) = None"
  by (auto simp: checkVariants_def Let_def split: prod.splits)

lemma andThen_None: "andThen (None, r) f = f r"
  by (simp add: andThen_def)

lemma andThen_Some: "andThen (Some e, r) f = (Some e, r)"
  by (simp add: andThen_def)

lemma navigate_failed: "navigationError pg u s = Some e \<Longrightarrow> navigate pg u s r = (Some e, r)"
  by (auto simp: navigationError_def navigate_def split: sum.splits)

lemma navigate_ok: "navigationError pg u s = None \<Longrightarrow>
  navigate pg u s r = (None, r\<lparr>performance := (performance r)\<lparr>loadTime := timeLoaded pg - timeStart pg\<rparr>\<rparr>)"
  by (auto simp: navigationError_def navigate_def catch_def split: sum.splits)

lemma tryBody_failed: "navigationError pg u s = Some e \<Longrightarrow> tryBody pg u s = (Some e, initialResult u)"
  by (simp add: tryBody_def navigate_failed andThen_Some)

lemma tryBody_ok: "navigationError pg u s = None \<Longrightarrow>
  tryBody pg u s =
    setVerdict (setAvailability pg (located pg atAvailability availConfig)
      (snd (checkVariants pg (setDescription (located pg atDescription descConfig)
        (snd (checkCart pg (setPrice (located pg atPrice priceConfig) (setTitle (located pg atTitle titleConfig)
          (loadedResult pg u)))))))))"
proof -
  assume n: "navigationError pg u s = None"
  have c: "\<And>r. checkCart pg r = (None, snd (checkCart pg r))"
    using checkCart_fst by (metis prod.collapse)
  have v: "\<And>r. checkVariants pg r = (None, snd (checkVariants pg r))"
    using checkVariants_fst by (metis prod.collapse)
  show ?thesis
    unfolding loadedResult_def tryBody_def navigate_ok [OF n] andThen_None checkTitle_eq checkPrice_eq
    apply (subst c) unfolding andThen_None checkDescription_eq
    apply (subst v) unfolding andThen_None checkAvailability_eq ..
qed

lemma testProductPage_failed:
  "navigationError pg u s = Some e \<Longrightarrow>
   testProductPage pg u s = (initialResult u)\<lparr>errors := [message e]\<rparr>"
  by (simp add: testProductPage_def tryBody_failed initialResult_def)

lemma testProductPage_ok:
  "navigationError pg u s = None \<Longrightarrow>
   testProductPage pg u s =
    snd (setVerdict (setAvailability pg (located pg atAvailability availConfig)
      (snd (checkVariants pg (setDescription (located pg atDescription descConfig)
        (snd (checkCart pg (setPrice (located pg atPrice priceConfig) (setTitle (located pg atTitle titleConfig)
          (loadedResult pg u))))))))))"
  by (simp add: testProductPage_def tryBody_ok setVerdict_def)

lemma setVerdict_elements: "elements (snd (setVerdict r)) = elements r"
  by (simp add: setVerdict_def)

lemma setVerdict_passed: "passed (snd (setVerdict r)) =
  (present (title (elements r)) \<and> present (price (elements r)) \<and>
   (present (addToCart (elements r)) \<or> present (variants (elements r))))"
  by (simp add: setVerdict_def)

lemma setAvailability_frame:
  "title (elements (setAvailability pg f r)) = title (elements r)"
  "price (elements (setAvailability pg f r)) = price (elements r)"
  "addToCart (elements (setAvailability pg f r)) = addToCart (elements r)"
  "description (elements (setAvailability pg f r)) = description (elements r)"
  "variants (elements (setAvailability pg f r)) = variants (elements r)"
  by (simp_all add: setAvailability_def split: option.splits)

lemma checkVariants_frame:
  "title (elements (snd (checkVariants pg r))) = title (elements r)"
  "price (elements (snd (checkVariants pg r))) = price (elements r)"
  "addToCart (elements (snd (checkVariants pg r))) = addToCart (elements r)"
  "description (elements (snd (checkVariants pg r))) = description (elements r)"
  "availability (elements (snd (checkVariants pg r))) = availability (elements r)"
  by (simp_all add: checkVariants_def Let_def split: prod.splits option.splits)

lemma setDescription_frame:
  "title (elements (setDescription f r)) = title (elements r)"
  "price (elements (setDescription f r)) = price (elements r)"
  "addToCart (elements (setDescription f r)) = addToCart (elements r)"
  "variants (elements (setDescription f r)) = variants (elements r)"
  "availability (elements (setDescription f r)) = availability (elements r)"
  by (simp_all add: setDescription_def split: option.splits)

lemma checkCart_frame:
  "title (elements (snd (checkCart pg r))) = title (elements r)"
  "price (elements (snd (checkCart pg r))) = price (elements r)"
  "description (elements (snd (checkCart pg r))) = description (elements r)"
  "variants (elements (snd (checkCart pg r))) = variants (elements r)"
  "availability (elements (snd (checkCart pg r))) = availability (elements r)"
  by (simp_all add: checkCart_def find_located isClickable_eq Let_def split: option.splits)

lemma setPrice_frame:
  "title (elements (setPrice f r)) = title (elements r)"
  "addToCart (elements (setPrice f r)) = addToCart (elements r)"
  "description (elements (setPrice f r)) = description (elements r)"
  "variants (elements (setPrice f r)) = variants (elements r)"
  "availability (elements (setPrice f r)) = availability (elements r)"
  by (simp_all add: setPrice_def split: option.splits)

lemma setTitle_frame:
  "price (elements (setTitle f r)) = price (elements r)"
  "addToCart (elements (setTitle f r)) = addToCart (elements r)"
  "description (elements (setTitle f r)) = description (elements r)"
  "variants (elements (setTitle f r)) = variants (elements r)"
  "availability (elements (setTitle f r)) = availability (elements r)"
  by (simp_all add: setTitle_def split: option.splits)

lemma loadedResult_elements: "elements (loadedResult pg u) = emptyElements"
  by (simp add: loadedResult_def initialResult_def)

lemmas frames = setVerdict_elements setAvailability_frame checkVariants_frame
  setDescription_frame checkCart_frame setPrice_frame setTitle_frame loadedResult_elements

lemma errors_frame:
  "errors (snd (setVerdict r)) = errors r"
  "errors (setAvailability pg f r) = errors r"
  "errors (setDescription f r) = errors r"
  "errors (snd (checkCart pg r)) = errors r"
  "errors (setPrice f r) = errors r"
  "errors (setTitle f r) = errors r"
  "errors (loadedResult pg u) = []"
  by (simp_all add: setVerdict_def setAvailability_def setDescription_def checkCart_def
      find_located isClickable_eq Let_def setPrice_def setTitle_def loadedResult_def
      initialResult_def split: option.splits)

lemma checkVariants_errors:
  "errors (snd (checkVariants pg r)) =
     errors r @ (case fst (detectVariants pg) of
                   Some e \<Rightarrow> [js ''Variant detection error: '' @ message e]
                 | None \<Rightarrow> [])"
  by (simp add: checkVariants_def Let_def split: prod.splits option.splits)

lemma errors_of_result:
  "errors (testProductPage pg u s) =
     (case navigationError pg u s of
        Some e \<Rightarrow> [message e]
      | None \<Rightarrow>
          (case fst (detectVariants pg) of
             Some e \<Rightarrow> [js ''Variant detection error: '' @ message e]
           | None \<Rightarrow> []))"
proof (cases "navigationError pg u s")
  case (Some e)
  then show ?thesis by (simp add: testProductPage_failed)
next
  case None
  then show ?thesis
    by (simp add: testProductPage_ok errors_frame checkVariants_errors)
qed

section \<open>One candidate at a time\<close>

lemma cssScan_step:
  "cssScan pg m cps sel j (h # hs) =
     (case inspectCss pg (m @ [j]) cps sel h of
        Inl e \<Rightarrow> Inl e
      | Inr (Some r) \<Rightarrow> Inr (Some r)
      | Inr None \<Rightarrow> cssScan pg m cps sel (Suc j) hs)"
  by (simp add: inspectCss_def elementContent_def Let_def split: sum.splits)


lemma inspectCss_throws: "isl (inspectCss pg m cps sel h) = inspectionThrows pg m h"
  by (simp add: inspectCss_def inspectionThrows_def elementContent_def split: sum.splits)


section \<open>Strategy 1 with content patterns\<close>

lemma inspectCss_pattern:
  "inspectCss pg m cps sel h = Inr (Some r) \<Longrightarrow> cps \<noteq> [] \<Longrightarrow>
   foundStrategy r = js ''css-pattern'' \<and> foundSelector r = sel \<and> foundText r \<noteq> [] \<and>
   matchesPattern pg cps (foundText r) \<and> element r = Handle h \<and>
   isVisible pg m (Handle h) = Inr True \<and> elementContent pg m h = Inr (foundText r)"
  by (auto simp: inspectCss_def split: sum.splits if_splits)

lemma cssScan_pattern:
  "cssScan pg m cps sel j hs = Inr (Some r) \<Longrightarrow> cps \<noteq> [] \<Longrightarrow>
   foundStrategy r = js ''css-pattern'' \<and> foundSelector r = sel \<and> foundText r \<noteq> [] \<and>
   matchesPattern pg cps (foundText r) \<and>
   (\<exists>q < length hs. element r = Handle (hs ! q) \<and>
      isVisible pg (m @ [j + q]) (Handle (hs ! q)) = Inr True \<and>
      elementContent pg (m @ [j + q]) (hs ! q) = Inr (foundText r))"
proof (induction hs arbitrary: j)
  case Nil
  then show ?case by simp
next
  case (Cons h hs)
  note p = Cons.prems(1) [unfolded cssScan_step]
  show ?case
  proof (cases "inspectCss pg (m @ [j]) cps sel h")
    case (Inl e)
    with p show ?thesis by simp
  next
    case (Inr found)
    show ?thesis
    proof (cases found)
      case (Some r')
      with Inr p have "r' = r" by simp
      with Inr Some have i: "inspectCss pg (m @ [j]) cps sel h = Inr (Some r)" by simp
      from inspectCss_pattern [OF i Cons.prems(2)]
      have "foundStrategy r = js ''css-pattern'' \<and> foundSelector r = sel \<and> foundText r \<noteq> [] \<and>
        matchesPattern pg cps (foundText r) \<and> element r = Handle ((h # hs) ! 0) \<and>
        isVisible pg (m @ [j + 0]) (Handle ((h # hs) ! 0)) = Inr True \<and>
        elementContent pg (m @ [j + 0]) ((h # hs) ! 0) = Inr (foundText r)"
        by simp
      then show ?thesis by (intro conjI exI [of _ 0]) simp_all
    next
      case None
      with Inr p have "cssScan pg m cps sel (Suc j) hs = Inr (Some r)"
        by simp
      from Cons.IH [OF this Cons.prems(2)] obtain q where
        a: "foundStrategy r = js ''css-pattern''" "foundSelector r = sel" "foundText r \<noteq> []"
          "matchesPattern pg cps (foundText r)"
        and q: "q < length hs" "element r = Handle (hs ! q)"
          "isVisible pg (m @ [Suc j + q]) (Handle (hs ! q)) = Inr True"
          "elementContent pg (m @ [Suc j + q]) (hs ! q) = Inr (foundText r)"
        by blast
      from q have "Suc q < length (h # hs) \<and> element r = Handle ((h # hs) ! Suc q) \<and>
        isVisible pg (m @ [j + Suc q]) (Handle ((h # hs) ! Suc q)) = Inr True \<and>
        elementContent pg (m @ [j + Suc q]) ((h # hs) ! Suc q) = Inr (foundText r)"
        by simp
      with a show ?thesis by blast
    qed
  qed
qed

lemma cssStrategy_pattern:
  "cssStrategy pg m cps i sels = Inr (Some r) \<Longrightarrow> cps \<noteq> [] \<Longrightarrow>
   foundStrategy r = js ''css-pattern'' \<and> foundText r \<noteq> [] \<and>
   matchesPattern pg cps (foundText r) \<and>
   (\<exists>k < length sels. sels ! k = foundSelector r \<and>
     (\<exists>hs. queryAll pg (m @ [1, i + k]) (foundSelector r) = Inr hs \<and>
       (\<exists>q < length hs. element r = Handle (hs ! q) \<and>
          isVisible pg (m @ [1, i + k, q]) (Handle (hs ! q)) = Inr True \<and>
          elementContent pg (m @ [1, i + k, q]) (hs ! q) = Inr (foundText r))))"
proof (induction sels arbitrary: i)
  case Nil
  then show ?case by simp
next
  case (Cons sel sels)
  show ?case
  proof (cases "catch (cssTry pg (m @ [1, i]) cps sel) (\<lambda>e. Inr None)")
    case (Inl e)
    then show ?thesis using Cons.prems by simp
  next
    case (Inr found)
    show ?thesis
    proof (cases found)
      case None
      with Inr Cons.prems have "cssStrategy pg m cps (Suc i) sels = Inr (Some r)" by simp
      from Cons.IH [OF this Cons.prems(2)] obtain k hs q where
        a: "foundStrategy r = js ''css-pattern''" "foundText r \<noteq> []"
          "matchesPattern pg cps (foundText r)"
        and k: "k < length sels" "sels ! k = foundSelector r"
          "queryAll pg (m @ [1, Suc i + k]) (foundSelector r) = Inr hs"
        and q: "q < length hs" "element r = Handle (hs ! q)"
          "isVisible pg (m @ [1, Suc i + k, q]) (Handle (hs ! q)) = Inr True"
          "elementContent pg (m @ [1, Suc i + k, q]) (hs ! q) = Inr (foundText r)"
        by blast
      from k q have "Suc k < length (sel # sels) \<and> (sel # sels) ! Suc k = foundSelector r \<and>
        (\<exists>hs. queryAll pg (m @ [1, i + Suc k]) (foundSelector r) = Inr hs \<and>
         (\<exists>q < length hs. element r = Handle (hs ! q) \<and>
          isVisible pg (m @ [1, i + Suc k, q]) (Handle (hs ! q)) = Inr True \<and>
          elementContent pg (m @ [1, i + Suc k, q]) (hs ! q) = Inr (foundText r)))"
        by auto
      with a show ?thesis by blast
    next
      case (Some r')
      with Inr Cons.prems have rr: "r' = r" by simp
      from Inr Some rr have "cssTry pg (m @ [1, i]) cps sel = Inr (Some r)"
        by (auto simp: catch_def split: sum.splits)
      then obtain hs where q: "queryAll pg (m @ [1, i]) sel = Inr hs"
        and s: "cssScan pg (m @ [1, i]) cps sel 0 hs = Inr (Some r)"
        by (auto simp: cssTry_def split: sum.splits)
      from cssScan_pattern [OF s Cons.prems(2)] obtain q' where
        a: "foundStrategy r = js ''css-pattern''" "foundSelector r = sel" "foundText r \<noteq> []"
          "matchesPattern pg cps (foundText r)"
        and b: "q' < length hs" "element r = Handle (hs ! q')"
          "isVisible pg (m @ [1, i, q']) (Handle (hs ! q')) = Inr True"
          "elementContent pg (m @ [1, i, q']) (hs ! q') = Inr (foundText r)"
        by auto
      from a b q have "0 < length (sel # sels) \<and> (sel # sels) ! 0 = foundSelector r \<and>
        (\<exists>hs. queryAll pg (m @ [1, i + 0]) (foundSelector r) = Inr hs \<and>
         (\<exists>q < length hs. element r = Handle (hs ! q) \<and>
          isVisible pg (m @ [1, i + 0, q]) (Handle (hs ! q)) = Inr True \<and>
          elementContent pg (m @ [1, i + 0, q]) (hs ! q) = Inr (foundText r)))"
        by auto
      with a show ?thesis by blast
    qed
  qed
qed

lemma textStrategy_tag:
  "textStrategy pg m i pats = Inr (Some r) \<Longrightarrow> foundStrategy r = js ''text''"
  by (induction pats arbitrary: i)
    (auto simp: catch_def textTry_def split: sum.splits option.splits if_splits)

lemma attrScan_tag:
  "attrScan pg m sel j hs = Inr (Some r) \<Longrightarrow> foundStrategy r = js ''attribute''"
  by (induction hs arbitrary: j) (auto simp: Let_def split: sum.splits option.splits if_splits)

lemma attrStrategy_tag:
  "attrStrategy pg m i as = Inr (Some r) \<Longrightarrow> foundStrategy r = js ''attribute''"
  by (induction as arbitrary: i)
    (auto simp: catch_def attrTry_def dest: attrScan_tag split: sum.splits option.splits if_splits)

lemma contentStrategy_tag:
  "contentStrategy pg m cps = Inr (Some r) \<Longrightarrow> foundStrategy r = js ''content-search''"
  by (auto simp: contentStrategy_def contentTry_def catch_def
      split: sum.splits option.splits if_splits prod.splits)

lemma find_origin:
  "findElementWithMultipleStrategies pg m c = Inr (Some r) \<Longrightarrow>
   cssStrategy pg m (contentPatterns c) 0 (selectors c) = Inr (Some r) \<or>
   foundStrategy r = js ''text'' \<or> foundStrategy r = js ''attribute'' \<or>
   foundStrategy r = js ''content-search''"
  by (auto simp: findElementWithMultipleStrategies_def orElseTry_def
      dest: textStrategy_tag attrStrategy_tag contentStrategy_tag split: sum.splits option.splits)

section \<open>The locator and its per-candidate reading\<close>

lemma absent_isl: "isl a \<Longrightarrow> absentOnThrow a = None"
  by (cases a) (simp_all add: absentOnThrow_def)

lemma allThrow_css: "allThrow pg m j hs \<Longrightarrow> specCssScan pg m cps sel j hs = None"
proof (induction hs arbitrary: j)
  case Nil
  then show ?case by simp
next
  case (Cons h hs)
  then have "isl (inspectCss pg (m @ [j]) cps sel h)" and "allThrow pg m (Suc j) hs"
    by (simp_all add: inspectCss_throws)
  then show ?case by (simp add: absent_isl Cons.IH)
qed


lemma cssScan_spec:
  "throwsToEnd pg m j hs \<Longrightarrow>
   catch (cssScan pg m cps sel j hs) (\<lambda>e. Inr None) = Inr (specCssScan pg m cps sel j hs)"
proof (induction hs arbitrary: j)
  case Nil
  then show ?case by (simp add: catch_def)
next
  case (Cons h hs)
  show ?case
  proof (cases "inspectCss pg (m @ [j]) cps sel h")
    case (Inl e)
    then have "inspectionThrows pg (m @ [j]) h"
      using inspectCss_throws [of pg "m @ [j]" cps sel h] by simp
    with Cons.prems have "allThrow pg m (Suc j) hs" by simp
    then have "specCssScan pg m cps sel (Suc j) hs = None" by (rule allThrow_css)
    with Inl show ?thesis
      by (simp only: cssScan_step specCssScan.simps absentOnThrow_def catch_def sum.case
          option.case)
  next
    case (Inr found)
    then have "\<not> inspectionThrows pg (m @ [j]) h"
      using inspectCss_throws [of pg "m @ [j]" cps sel h] by simp
    with Cons.prems have "throwsToEnd pg m (Suc j) hs" by simp
    from Cons.IH [OF this] Inr show ?thesis
      by (cases found)
        (simp_all only: cssScan_step specCssScan.simps absentOnThrow_def catch_def sum.case
          option.case)
  qed
qed


lemma cssTry_spec:
  "enumerationBound pg m sel \<Longrightarrow>
   catch (cssTry pg m cps sel) (\<lambda>e. Inr None) =
   Inr (case queryAll pg m sel of Inl e \<Rightarrow> None | Inr hs \<Rightarrow> specCssScan pg m cps sel 0 hs)"
  by (cases "queryAll pg m sel")
    (simp_all add: cssTry_def enumerationBound_def cssScan_spec, simp add: catch_def)


lemma cssStrategy_spec:
  "cssBound pg m i sels \<Longrightarrow>
   cssStrategy pg m cps i sels = Inr (specCssStrategy pg m cps i sels)"
proof (induction sels arbitrary: i)
  case Nil
  then show ?case by simp
next
  case (Cons sel sels)
  from Cons.prems have b: "enumerationBound pg (m @ [1, i]) sel"
    and r: "cssBound pg m (Suc i) sels"
    by (simp_all add: cssBound_def)
  show ?case
    by (simp only: cssStrategy.simps specCssStrategy.simps cssTry_spec [OF b] Cons.IH [OF r]
        sum.case split: option.splits) simp
qed





section \<open>Strategy 1 without content patterns\<close>

lemma inspectCss_plain:
  "absentOnThrow (inspectCss pg m [] sel h) =
     (if accepted pg m h then Some (cssResult pg (m, sel, h)) else None)"
  by (simp add: absentOnThrow_def inspectCss_def accepted_def cssResult_def contentText_def
      split: sum.splits)

lemma specCssScan_plain:
  "specCssScan pg m [] sel j hs =
     map_option (cssResult pg)
       (find (\<lambda>c. case c of (mo, s, h) \<Rightarrow> accepted pg mo h)
          (map (\<lambda>(q, h). (m @ [q], sel, h)) (enumerate j hs)))"
  by (induction hs arbitrary: j) (simp_all add: inspectCss_plain)

lemma find_append_option:
  "find P (xs @ ys) = (case find P xs of Some x \<Rightarrow> Some x | None \<Rightarrow> find P ys)"
  by (induction xs) auto

lemma specCandidates_Cons:
  "specCandidates pg m i (sel # sels) =
     (case queryAll pg (m @ [1, i]) sel of
        Inl e \<Rightarrow> []
      | Inr hs \<Rightarrow> map (\<lambda>(j, h). (m @ [1, i, j], sel, h)) (enumerate 0 hs)) @
     specCandidates pg m (Suc i) sels"
  by (simp add: specCandidates_def)

lemma specCssStrategy_plain:
  "specCssStrategy pg m [] i sels =
     map_option (cssResult pg)
       (find (\<lambda>c. case c of (mo, s, h) \<Rightarrow> accepted pg mo h) (specCandidates pg m i sels))"
proof (induction sels arbitrary: i)
  case Nil
  then show ?case by (simp add: specCandidates_def)
next
  case (Cons sel sels)
  show ?case
  proof (cases "queryAll pg (m @ [1, i]) sel")
    case (Inl e)
    then show ?thesis by (simp add: specCandidates_Cons Cons.IH)
  next
    case (Inr hs)
    then show ?thesis
      using specCssScan_plain [of pg "m @ [1, i]" sel 0 hs]
      by (simp add: specCandidates_Cons Cons.IH find_append_option split: option.splits)
  qed
qed

section \<open>Pages on which nothing is found\<close>





lemma blank_css: "cssStrategy blankPage m cps i sels = Inr None"
  by (induction sels arbitrary: i) (simp_all add: catch_def cssTry_def blankPage_def)

lemma blank_text: "textStrategy blankPage m i pats = Inr None"
  by (induction pats arbitrary: i) (simp_all add: catch_def textTry_def blankPage_def)

lemma blank_attr: "attrStrategy blankPage m i as = Inr None"
  by (induction as arbitrary: i) (simp_all add: catch_def attrTry_def blankPage_def)

lemma blank_content: "contentStrategy blankPage m cps = Inr None"
  by (simp add: contentStrategy_def catch_def contentTry_def blankPage_def)


lemma find_blank: "findElementWithMultipleStrategies blankPage m c = Inr None"
  by (simp add: findElementWithMultipleStrategies_def orElseTry_def blank_css blank_text
      blank_attr blank_content)



section \<open>Variant detection\<close>

lemma scanContainers_find:
  "scanContainers pg i cs (0, [], []) =
    (case find (\<lambda>(k, c). subQueryAll pg (atContainers @ [k]) c optionSelector \<noteq> Inr [])
            (enumerate i cs) of
       None \<Rightarrow> (None, (0, [], []))
     | Some (k, c) \<Rightarrow>
        (case subQueryAll pg (atContainers @ [k]) c optionSelector of
           Inl e \<Rightarrow> (Some e, (0, [], []))
         | Inr options \<Rightarrow> (None, (length options, js ''container-based'', js ''container''))))"
  by (induction cs arbitrary: i) (auto split: sum.splits)

lemma countIndividual_zero:
  "(case countIndividual pg (0, [], []) of (thrown, n, sel, strat) \<Rightarrow>
      if n > 0 then \<lparr>present = True, selector = sel, strategy = strat, count = n\<rparr>
      else emptyVariants) = individualVariants pg"
  by (auto simp: countIndividual_def individualVariants_def find_located emptyVariants_def
      split: option.splits sum.splits)

lemma checkVariants_variants:
  "variants (elements r) = emptyVariants \<Longrightarrow>
   variants (elements (snd (checkVariants pg r))) =
     (case detectVariants pg of (thrown, n, sel, strat) \<Rightarrow>
        if n > 0 then \<lparr>present = True, selector = sel, strategy = strat, count = n\<rparr>
        else emptyVariants)"
  by (auto simp: checkVariants_def Let_def emptyVariants_def split: prod.splits option.splits)

lemma detectVariants_eq:
  "(case detectVariants pg of (thrown, n, sel, strat) \<Rightarrow>
        if n > 0 then \<lparr>present = True, selector = sel, strategy = strat, count = n\<rparr>
        else emptyVariants) =
   (case queryAll pg atContainers containerSelector of
      Inl e \<Rightarrow> emptyVariants
    | Inr containers \<Rightarrow>
        (case find (\<lambda>(k, c). subQueryAll pg (atContainers @ [k]) c optionSelector \<noteq> Inr [])
                (enumerate 0 containers) of
           Some (k, c) \<Rightarrow>
             (case subQueryAll pg (atContainers @ [k]) c optionSelector of
                Inl e \<Rightarrow> emptyVariants
              | Inr options \<Rightarrow>
                  \<lparr>present = True, selector = js ''container-based'',
                   strategy = js ''container'', count = length options\<rparr>)
         | None \<Rightarrow> individualVariants pg))"
proof (cases "queryAll pg atContainers containerSelector")
  case (Inl e)
  then show ?thesis by (simp add: detectVariants_def)
next
  case (Inr cs)
  show ?thesis
  proof (cases "find (\<lambda>(k, c). subQueryAll pg (atContainers @ [k]) c optionSelector \<noteq> Inr [])
                (enumerate 0 cs)")
    case None
    then show ?thesis
      using countIndividual_zero [of pg]
      by (simp add: detectVariants_def Inr scanContainers_find)
  next
    case (Some kc)
    obtain k c where kc: "kc = (k, c)" by (cases kc)
    from Some kc have "subQueryAll pg (atContainers @ [k]) c optionSelector \<noteq> Inr []"
      by (auto simp: find_Some_iff)
    with Some kc show ?thesis
      by (auto simp: detectVariants_def Inr scanContainers_find countIndividual_def
          split: sum.splits)
  qed
qed

lemma variants_of_result:
  assumes "navigationError pg u s = None"
  shows "variants (elements (testProductPage pg u s)) =
     (case detectVariants pg of (thrown, n, sel, strat) \<Rightarrow>
        if n > 0 then \<lparr>present = True, selector = sel, strategy = strat, count = n\<rparr>
        else emptyVariants)"
proof -
  have e: "variants (elements (setDescription (located pg atDescription descConfig)
        (snd (checkCart pg (setPrice (located pg atPrice priceConfig)
          (setTitle (located pg atTitle titleConfig) (loadedResult pg u))))))) = emptyVariants"
    by (simp add: frames emptyElements_def emptyVariants_def)
  show ?thesis
    by (simp only: testProductPage_ok [OF assms] setVerdict_elements setAvailability_frame
        checkVariants_variants [OF e])
qed

section \<open>The execution\<close>

lemma statuses_append: "statuses (xs @ ys) = statuses xs @ statuses ys"
  by (induction xs rule: statuses.induct) auto

lemma statuses_Navigated: "statuses (map Navigated us) = []"
  by (induction us) auto

lemma testPages_eq:
  "testPages w settings i us st =
     st\<lparr>testResult :=
          (testResult st)\<lparr>results := (results (testResult st))\<lparr>productPageTests :=
             productPageTests (results (testResult st)) @
             map (\<lambda>(j, u). castPage (objectId w j) (testProductPage (pageDuring w j) u settings))
               (enumerate i us)\<rparr>\<rparr>,
        log := log st @ map Navigated us\<rparr>"
  by (induction us arbitrary: i st) (simp_all add: Let_def)

lemma tryBody_fst: "fst (tryBody pg u s) = navigationError pg u s"
proof (cases "navigationError pg u s")
  case None
  then show ?thesis by (simp add: tryBody_ok setVerdict_def)
next
  case (Some e)
  then show ?thesis by (simp add: tryBody_failed)
qed

lemma take2_append: "length xs \<ge> 2 \<Longrightarrow> take 2 (xs @ ys) = take 2 xs"
  by simp

lemma hd_append_long: "length xs \<ge> 2 \<Longrightarrow> hd (xs @ ys) = hd xs"
  by (cases xs) auto

lemma persistCreated_before:
  "beforeCompletion w cfg (persistCreated w (initialState w cfg))"
  by (simp add: beforeCompletion_def persistCreated_def initialState_def newTestResult_def
      split: sum.splits)

lemma openPage_before:
  "beforeCompletion w cfg (None, st) \<Longrightarrow> beforeCompletion w cfg (openPage w st)"
  by (auto simp: beforeCompletion_def openPage_def split: sum.splits)

lemma validatePages_before:
  "beforeCompletion w cfg (None, st) \<Longrightarrow> beforeCompletion w cfg (validatePages w cfg st)"
  by (simp add: beforeCompletion_def validatePages_def testPages_eq statuses_append
      statuses_Navigated hd_append_long)

lemma collect_before:
  "beforeCompletion w cfg (None, st) \<Longrightarrow> beforeCompletion w cfg (collect w st)"
  by (simp add: beforeCompletion_def collect_def Let_def)

lemma closeAndAnalyze_before:
  "beforeCompletion w cfg (None, st) \<Longrightarrow> beforeCompletion w cfg (closeAndAnalyze w st)"
  by (auto simp: beforeCompletion_def closeAndAnalyze_def split: sum.splits)

lemma andThen_before:
  assumes "beforeCompletion w cfg a"
    and "\<And>st. beforeCompletion w cfg (None, st) \<Longrightarrow> beforeCompletion w cfg (f st)"
  shows "beforeCompletion w cfg (andThen a f)"
proof (cases a)
  case (Pair thrown st)
  show ?thesis
  proof (cases thrown)
    case None
    with Pair assms show ?thesis by (simp add: andThen_def)
  next
    case (Some e)
    with Pair assms(1) show ?thesis by (simp add: andThen_def)
  qed
qed

lemma beforeComplete_before: "beforeCompletion w cfg (beforeComplete w cfg)"
  unfolding beforeComplete_def
  by (intro andThen_before persistCreated_before openPage_before validatePages_before
      collect_before closeAndAnalyze_before)

lemma tryRun_eq: "tryRun w cfg = andThen (beforeComplete w cfg) (complete w)"
  by (simp add: tryRun_def beforeComplete_def)

lemma pagesOf_collect: "pagesOf (snd (collect w st)) = pagesOf st"
  by (simp add: collect_def pagesOf_def Let_def)

lemma pagesOf_closeAndAnalyze: "pagesOf (snd (closeAndAnalyze w st)) = pagesOf st"
  by (simp add: closeAndAnalyze_def pagesOf_def split: sum.splits)

lemma pagesOf_complete: "pagesOf (snd (complete w st)) = pagesOf st"
  by (simp add: complete_def pagesOf_def Let_def split: sum.splits)

lemma pagesOf_handleFailure: "pagesOf (snd (handleFailure w e st)) = pagesOf st"
  by (simp add: handleFailure_def pagesOf_def Let_def split: sum.splits)

lemma pagesOf_andThen:
  "(\<And>st. pagesOf (snd (f st)) = pagesOf st) \<Longrightarrow> pagesOf (snd (andThen a f)) = pagesOf (snd a)"
  by (cases a) (auto simp: andThen_def split: option.splits)

lemma pagesOf_runTest: "pagesOf (snd (runTest w cfg)) = pagesOf (snd (tryRun w cfg))"
  by (cases "tryRun w cfg") (auto simp: runTest_def pagesOf_handleFailure split: option.splits)

lemma pagesOf_validated:
  assumes "saveCreated w (newTestResult w cfg) = Inr ()" "initializeBrowser w = Inr ()"
    "newContext w = Inr ()" "newPage w = Inr ()"
  shows "pagesOf (snd (runTest w cfg)) =
        map (\<lambda>(i, u). castPage (objectId w i) (testProductPage (pageDuring w i) u (testSettings cfg)))
          (enumerate 0 (productPages cfg))"
proof -
  have "pagesOf (snd (runTest w cfg)) =
     pagesOf (snd (andThen (andThen (persistCreated w (initialState w cfg)) (openPage w))
        (validatePages w cfg)))"
    by (simp only: pagesOf_runTest tryRun_def pagesOf_andThen pagesOf_collect
        pagesOf_closeAndAnalyze pagesOf_complete)
  also have "\<dots> = map (\<lambda>(i, u). castPage (objectId w i)
            (testProductPage (pageDuring w i) u (testSettings cfg)))
          (enumerate 0 (productPages cfg))"
    using assms
    by (simp add: persistCreated_def initialState_def openPage_def andThen_def
        validatePages_def testPages_eq pagesOf_def newTestResult_def)
  finally show ?thesis .
qed

section \<open>The sample pages\<close>

lemmas locate_defs = located_def findElementWithMultipleStrategies_def orElseTry_def catch_def
  cssTry_def attrTry_def textTry_def contentStrategy_def contentTry_def matchesPattern_def
  matchesOne_def trim_def isSpace_def orEmpty_def trimOrEmpty_def attrSelector_def

lemmas shop_defs = shopPage_def blankPage_def shopQueryAll_def shopText_def shopRegexTest_def
  containerSelector_def optionSelector_def

lemma shop_title:
  "located shopPage atTitle titleConfig =
     Some \<lparr>element = Handle 1, foundText = js ''Blue Widget'', foundSelector = js ''h1'',
           foundStrategy = js ''css''\<rparr>"
  by (simp add: locate_defs shop_defs titleConfig_def js_def)

lemma shop_price:
  "located shopPage atPrice priceConfig =
     Some \<lparr>element = Handle 2, foundText = js ''$19.99'', foundSelector = js ''.money'',
           foundStrategy = js ''css-pattern''\<rparr>"
  by (simp add: locate_defs shop_defs priceConfig_def amount_def bs_def js_def)

lemma shop_cart:
  "located shopPage atCart cartConfig =
     Some \<lparr>element = Handle 3, foundText = js ''Add to Cart'', foundSelector = js ''button'',
           foundStrategy = js ''css''\<rparr>"
  by (simp add: locate_defs shop_defs cartConfig_def js_def)

lemma shop_description:
  "located shopPage atDescription descConfig =
     Some \<lparr>element = Handle 4, foundText = replicate 250 120,
           foundSelector = js ''.description'', foundStrategy = js ''css''\<rparr>"
  by (simp add: locate_defs shop_defs descConfig_def js_def)

lemma shop_availability:
  "located shopPage atAvailability availConfig =
     Some \<lparr>element = Handle 5, foundText = js ''Unavailable'',
           foundSelector = js ''.stock-status'', foundStrategy = js ''css-pattern''\<rparr>"
  by (simp add: locate_defs shop_defs availConfig_def bs_def js_def)

lemma shop_navigation: "navigationError shopPage u settings0 = None"
  by (simp add: navigationError_def shopPage_def blankPage_def)

lemma shop_variants:
  "detectVariants shopPage = (None, (2, js ''container-based'', js ''container''))"
  by (simp add: detectVariants_def countIndividual_def shopPage_def blankPage_def shopQueryAll_def
      containerSelector_def)

lemma stock_Unavailable: "stockStatus pg (js ''Unavailable'') = Some True"
  by (simp add: stockStatus_def toLowerCase_def lowerCase_def asciiLower_def js_def)

lemma shopPage_result:
  "testProductPage shopPage shopUrl settings0 =
     \<lparr>url = shopUrl, passed = True,
      elements =
        \<lparr>title = \<lparr>present = True, selector = js ''h1'', strategy = js ''css'',
                   textOf = js ''Blue Widget''\<rparr>,
         price = \<lparr>present = True, selector = js ''.money'', strategy = js ''css-pattern'',
                   textOf = js ''$19.99''\<rparr>,
         addToCart = \<lparr>present = True, selector = js ''button'', strategy = js ''css'',
                       clickable = True\<rparr>,
         description = \<lparr>present = True, selector = js ''.description'',
                         strategy = js ''css'', textOf = replicate 200 120\<rparr>,
         variants = \<lparr>present = True, selector = js ''container-based'',
                      strategy = js ''container'', count = 2\<rparr>,
         availability = \<lparr>present = True, selector = js ''.stock-status'',
                          strategy = js ''css-pattern'', textOf = js ''Unavailable'',
                          inStock = Some True\<rparr>\<rparr>,
      performance = \<lparr>loadTime = 2500, timeToInteractive = 0\<rparr>, errors = []\<rparr>"
  unfolding testProductPage_ok [OF shop_navigation] checkCart_def checkVariants_def
    find_located shop_title shop_price shop_cart shop_description shop_availability
    shop_variants
  by (simp add: stock_Unavailable setVerdict_def setAvailability_def setDescription_def
      isClickable_eq setPrice_def setTitle_def loadedResult_def initialResult_def
      emptyElements_def emptyTextCheck_def substring0_def Let_def shopPage_def blankPage_def)

lemmas reloading_defs = reloadingPage_def shopPage_def blankPage_def shopQueryAll_def
  shopText_def shopRegexTest_def containerSelector_def optionSelector_def

lemma reloading_title:
  "located reloadingPage atTitle titleConfig =
     Some \<lparr>element = Handle 1, foundText = js ''Blue Widget'', foundSelector = js ''h1'',
           foundStrategy = js ''css''\<rparr>"
  by (simp add: locate_defs reloading_defs titleConfig_def js_def)

lemma reloading_price:
  "located reloadingPage atPrice priceConfig =
     Some \<lparr>element = Handle 2, foundText = js ''$19.99'', foundSelector = js ''.money'',
           foundStrategy = js ''css-pattern''\<rparr>"
  by (simp add: locate_defs reloading_defs priceConfig_def amount_def bs_def js_def)

lemma reloading_cart:
  "located reloadingPage atCart cartConfig =
     Some \<lparr>element = Handle 3, foundText = js ''Add to Cart'', foundSelector = js ''button'',
           foundStrategy = js ''css''\<rparr>"
  by (simp add: locate_defs reloading_defs cartConfig_def js_def)

lemma reloading_navigation: "navigationError reloadingPage u settings0 = None"
  by (simp add: navigationError_def reloadingPage_def shopPage_def blankPage_def)

lemma reloading_variants: "detectVariants reloadingPage = (Some destroyed, (0, [], []))"
  by (simp add: detectVariants_def reloadingPage_def)

lemma reloading_facts:
  "errors (testProductPage reloadingPage shopUrl settings0) =
     [js ''Variant detection error: '' @ message destroyed]"
  "present (title (elements (testProductPage reloadingPage shopUrl settings0)))"
  "present (price (elements (testProductPage reloadingPage shopUrl settings0)))"
  "present (addToCart (elements (testProductPage reloadingPage shopUrl settings0)))"
  "passed (testProductPage reloadingPage shopUrl settings0)"
proof -
  show "errors (testProductPage reloadingPage shopUrl settings0) =
     [js ''Variant detection error: '' @ message destroyed]"
    by (simp add: errors_of_result reloading_navigation reloading_variants)
  show t: "present (title (elements (testProductPage reloadingPage shopUrl settings0)))"
    unfolding testProductPage_ok [OF reloading_navigation]
    by (simp only: frames reloading_title) (simp add: setTitle_def)
  show p: "present (price (elements (testProductPage reloadingPage shopUrl settings0)))"
    unfolding testProductPage_ok [OF reloading_navigation]
    by (simp only: frames reloading_price) (simp add: setPrice_def)
  show c: "present (addToCart (elements (testProductPage reloadingPage shopUrl settings0)))"
    unfolding testProductPage_ok [OF reloading_navigation]
    by (simp only: frames checkCart_def find_located reloading_cart)
      (simp add: isClickable_eq Let_def)
  from t p c show "passed (testProductPage reloadingPage shopUrl settings0)"
    unfolding testProductPage_ok [OF reloading_navigation]
    by (simp only: setVerdict_passed setVerdict_elements simp_thms)
qed

lemmas bound_defs = contextBound_def cssBound_def attrBound_def enumerationBound_def
  inspectionThrows_def attrSelector_def

lemma headings_bound: "cssBound headingsPage atTitle 0 (selectors titleConfig)"
  by (simp add: bound_defs headingsPage_def blankPage_def titleConfig_def)

lemma headings_spec:
  "specFirstVisible headingsPage atTitle (selectors titleConfig) =
     Some \<lparr>element = Handle 3, foundText = js ''Blue Widget'', foundSelector = js ''h1'',
           foundStrategy = js ''css''\<rparr>"
  by (simp add: specFirstVisible_def specCandidates_def accepted_def elementContent_def
      cssResult_def contentText_def trim_def isSpace_def orEmpty_def headingsPage_def
      blankPage_def titleConfig_def js_def)

lemma headings_second: "elementContent headingsPage m 2 = Inr []"
  by (simp add: elementContent_def trim_def isSpace_def orEmpty_def headingsPage_def
      blankPage_def)




lemma button_cart:
  "located (buttonPage enabledThen visibleThen) atCart cartConfig =
     Some \<lparr>element = Handle 3, foundText = js ''Add to Cart'', foundSelector = js ''button'',
           foundStrategy = js ''css''\<rparr>"
  by (simp add: locate_defs buttonPage_def blankPage_def cartConfig_def js_def)

lemma button_navigation: "navigationError (buttonPage enabledThen visibleThen) u s = None"
  by (simp add: navigationError_def buttonPage_def blankPage_def)

lemma button_calls:
  "isEnabled (buttonPage enabledThen visibleThen) atClick el = enabledThen"
  "isVisible (buttonPage enabledThen visibleThen) atClick el = visibleThen"
  by (simp_all add: buttonPage_def blankPage_def)

lemma blank_navigation: "navigationError blankPage u s = None"
  by (simp add: navigationError_def blankPage_def)

lemma broken_navigation: "navigationError brokenPage u s = Some closed"
  by (simp add: navigationError_def brokenPage_def)

lemma two_containers:
  "queryAll twoContainersPage m containerSelector = Inr [10, 11]"
  "subQueryAll twoContainersPage m 10 optionSelector = Inr []"
  "subQueryAll twoContainersPage m 11 optionSelector = Inr [12, 13, 14]"
  by (simp_all add: twoContainersPage_def blankPage_def)

lemma two_navigation: "navigationError twoContainersPage u s = None"
  by (simp add: navigationError_def twoContainersPage_def blankPage_def)

lemma two_fallback:
  "located twoContainersPage atFallback variantConfig =
     Some \<lparr>element = Handle 10, foundText = js ''Size'', foundSelector = optionClass,
           foundStrategy = js ''css''\<rparr>"
  by (simp add: locate_defs twoContainersPage_def blankPage_def variantConfig_def
      optionClass_def containerSelector_def js_def)

lemma two_spec:
  "specVariants twoContainersPage =
     \<lparr>present = True, selector = optionClass, strategy = js ''css'', count = 2\<rparr>"
  unfolding specVariants_def specFirstContainerCount_def individualVariants_def two_fallback
  by (simp add: two_containers twoContainersPage_def blankPage_def)

lemma two_result:
  "variants (elements (testProductPage twoContainersPage shopUrl settings0)) =
     \<lparr>present = True, selector = js ''container-based'', strategy = js ''container'',
      count = 3\<rparr>"
  by (simp add: variants_of_result [OF two_navigation] detectVariants_def countIndividual_def
      two_containers)

section \<open>The sample executions\<close>

lemmas run_defs = runTest_def tryRun_def persistCreated_def initialState_def openPage_def
  validatePages_def collect_def closeAndAnalyze_def complete_def handleFailure_def
  andThen_def testPages_eq Let_def

lemma world0_log:
  "log (snd (runTest world0 config0)) =
     [Status Running, Saved (newTestResult world0 config0),
      Navigated downUrl, Navigated shopUrl, Status Completed,
      Saved (testResult (snd (runTest world0 config0)))]"
  by (simp add: run_defs world0_def config0_def)

lemma world0_returns:
  "fst (runTest world0 config0) = Inr (testResult (snd (runTest world0 config0)))"
  by (simp add: run_defs world0_def config0_def)

lemma flaky_statuses:
  "statuses (log (snd (runTest flakyWorld config0))) = [Running, Completed, Failed]"
  by (simp add: run_defs flakyWorld_def world0_def config0_def statuses_append statuses_Navigated)

lemma down_run:
  "fst (runTest downWorld config0) = Inl storeError \<and>
   log (snd (runTest downWorld config0)) = [Status Running, SaveFailed, Status Failed, SaveFailed]"
  by (simp add: run_defs downWorld_def world0_def config0_def)

section \<open>The statements of the specification\<close>

text \<open>
  C1 (availability stock flag). The flag is \<open>true\<close> when the lower-cased text contains
  ``in stock'' or ``available'', \<open>false\<close> when it otherwise contains ``out of stock'',
  and unknown otherwise. The text ``Unavailable'' contains ``available'', so the code
  reports \<open>true\<close> for it, on the function and on the sample page alike, where the
  specification says \<open>false\<close>; ``Ships free'' is unknown, ``In Stock'' is \<open>true\<close> and
  ``Out of Stock'' is \<open>false\<close>, as specified. The four texts are ASCII, so the answers
  hold whatever the engine does beyond ASCII.
\<close>

theorem C1_unavailable_reported_in_stock:
  "stockStatus pg (js ''Unavailable'') = Some True \<and>
   inStock (availability (elements (testProductPage shopPage shopUrl settings0))) = Some True \<and>
   textOf (availability (elements (testProductPage shopPage shopUrl settings0))) =
     js ''Unavailable'' \<and>
   stockStatus pg (js ''Ships free'') = None \<and>
   stockStatus pg (js ''In Stock'') = Some True \<and>
   stockStatus pg (js ''Out of Stock'') = Some False"
proof -
  have b: "stockStatus pg (js ''Ships free'') = None"
    by (simp add: stockStatus_def toLowerCase_def lowerCase_def asciiLower_def js_def)
  have c: "stockStatus pg (js ''In Stock'') = Some True"
    by (simp add: stockStatus_def toLowerCase_def lowerCase_def asciiLower_def js_def)
  have d: "stockStatus pg (js ''Out of Stock'') = Some False"
    by (simp add: stockStatus_def toLowerCase_def lowerCase_def asciiLower_def js_def)
  show ?thesis by (simp add: shopPage_result stock_Unavailable b c d)
qed

text \<open>
  C2 (pass verdict). For every page, address and settings, the verdict of the page result
  is true exactly when the title is present, the price is present, and the add-to-cart
  control or the variants are present. Description and availability do not occur in it.
  The page, and with it the four flags, is arbitrary.
\<close>

theorem C2_passed_iff:
  "passed (testProductPage pg u s) =
     (present (title (elements (testProductPage pg u s))) \<and>
      present (price (elements (testProductPage pg u s))) \<and>
      (present (addToCart (elements (testProductPage pg u s))) \<or>
       present (variants (elements (testProductPage pg u s)))))"
proof (cases "navigationError pg u s")
  case (Some e)
  then show ?thesis
    by (simp add: testProductPage_failed initialResult_def emptyElements_def emptyTextCheck_def)
next
  case None
  then show ?thesis
    by (simp only: testProductPage_ok setVerdict_passed setVerdict_elements)
qed

text \<open>
  The verdict on the sample page, obtained from the four flags through C2, and the
  verdict on the closed page.
\<close>

theorem C2_passed_iff_witness:
  "passed (testProductPage shopPage shopUrl settings0) \<and>
   present (title (elements (testProductPage shopPage shopUrl settings0))) \<and>
   present (price (elements (testProductPage shopPage shopUrl settings0))) \<and>
   present (addToCart (elements (testProductPage shopPage shopUrl settings0))) \<and>
   \<not> passed (testProductPage brokenPage shopUrl settings0)"
proof -
  have t: "present (title (elements (testProductPage shopPage shopUrl settings0)))"
    and p: "present (price (elements (testProductPage shopPage shopUrl settings0)))"
    and c: "present (addToCart (elements (testProductPage shopPage shopUrl settings0)))"
    by (simp_all add: shopPage_result)
  have b: "\<not> present (title (elements (testProductPage brokenPage shopUrl settings0)))"
    by (simp add: testProductPage_failed [OF broken_navigation] initialResult_def
        emptyElements_def emptyTextCheck_def)
  show ?thesis
    using C2_passed_iff [of shopPage shopUrl settings0]
      C2_passed_iff [of brokenPage shopUrl settings0] t p c b
    by blast
qed

text \<open>
  C3 (content patterns exclude the plain tag). When the configuration has at least one
  content pattern, a located result is never tagged \<open>css\<close>; and a result tagged
  \<open>css-pattern\<close> comes from one of the configured selectors, is a match of that selector
  that was visible when it was inspected, carries the non-empty trimmed text read then,
  and that text matches at least one content pattern: a string pattern as a substring
  without regard to case, a regular expression by its test. A visible match whose text
  fails every pattern is therefore never returned by strategy 1.
\<close>

theorem C3_no_plain_css_with_patterns:
  assumes "contentPatterns c \<noteq> []"
    and "findElementWithMultipleStrategies pg m c = Inr (Some r)"
  shows "foundStrategy r \<noteq> js ''css'' \<and>
    (foundStrategy r = js ''css-pattern'' \<longrightarrow>
       foundSelector r \<in> set (selectors c) \<and> foundText r \<noteq> [] \<and>
       (\<exists>p \<in> set (contentPatterns c).
          case p of
            Str s \<Rightarrow> includesStr (toLowerCase pg (foundText r)) (toLowerCase pg s)
          | RegExp source flags \<Rightarrow> regexTest pg source flags (foundText r)) \<and>
       (\<exists>k < length (selectors c). selectors c ! k = foundSelector r \<and>
          (\<exists>hs. queryAll pg (m @ [1, k]) (foundSelector r) = Inr hs \<and>
             (\<exists>q < length hs. element r = Handle (hs ! q) \<and>
                isVisible pg (m @ [1, k, q]) (Handle (hs ! q)) = Inr True \<and>
                elementContent pg (m @ [1, k, q]) (hs ! q) = Inr (foundText r)))))"
proof -
  have mp: "matchesPattern pg cps t =
       (\<exists>p \<in> set cps. case p of
            Str s \<Rightarrow> includesStr (toLowerCase pg t) (toLowerCase pg s)
          | RegExp source flags \<Rightarrow> regexTest pg source flags t)" for cps t
    by (auto simp: matchesPattern_def matchesOne_def list_ex_iff split: pattern.splits)
  from find_origin [OF assms(2)] show ?thesis
  proof (elim disjE)
    assume "cssStrategy pg m (contentPatterns c) 0 (selectors c) = Inr (Some r)"
    from cssStrategy_pattern [OF this assms(1)] obtain k where
      a: "foundStrategy r = js ''css-pattern''" "foundText r \<noteq> []"
        "matchesPattern pg (contentPatterns c) (foundText r)"
      and k: "k < length (selectors c)" "selectors c ! k = foundSelector r"
        "\<exists>hs. queryAll pg (m @ [1, k]) (foundSelector r) = Inr hs \<and>
          (\<exists>q < length hs. element r = Handle (hs ! q) \<and>
             isVisible pg (m @ [1, k, q]) (Handle (hs ! q)) = Inr True \<and>
             elementContent pg (m @ [1, k, q]) (hs ! q) = Inr (foundText r))"
      by auto
    from k have "foundSelector r \<in> set (selectors c)" by (metis nth_mem)
    with a k show ?thesis unfolding mp by auto
  qed simp_all
qed

text \<open>
  On the sample page the first \<open>.money\<close> element reads ``Sale'' and is passed over; the
  second, a price, is returned.
\<close>

theorem C3_no_plain_css_with_patterns_witness:
  "contentPatterns priceConfig \<noteq> [] \<and>
   findElementWithMultipleStrategies shopPage atPrice priceConfig =
     Inr (Some \<lparr>element = Handle 2, foundText = js ''$19.99'', foundSelector = js ''.money'',
                foundStrategy = js ''css-pattern''\<rparr>) \<and>
   js ''.money'' \<in> set (selectors priceConfig) \<and>
   elementContent shopPage (atPrice @ [1, 4, 1]) 2 = Inr (js ''$19.99'') \<and>
   elementContent shopPage (atPrice @ [1, 4, 0]) 8 = Inr (js ''Sale'')"
proof -
  have h1: "contentPatterns priceConfig \<noteq> []"
    by (simp add: priceConfig_def)
  have h2: "findElementWithMultipleStrategies shopPage atPrice priceConfig =
     Inr (Some \<lparr>element = Handle 2, foundText = js ''$19.99'', foundSelector = js ''.money'',
                foundStrategy = js ''css-pattern''\<rparr>)"
    by (simp only: find_located shop_price)
  have h3: "elementContent shopPage (atPrice @ [1, 4, 1]) 2 = Inr (js ''$19.99'')"
    "elementContent shopPage (atPrice @ [1, 4, 0]) 8 = Inr (js ''Sale'')"
    by (simp_all add: elementContent_def trim_def isSpace_def orEmpty_def shop_defs js_def)
  from C3_no_plain_css_with_patterns [OF h1 h2] h1 h2 h3 show ?thesis
    by simp
qed

text \<open>
  C4 (a failing page does not stop the run), as amended. The exceptions that leave the
  \<open>try\<close> of the validator are those of the navigation and of the settle delay, and no
  other. When one is thrown, the validator returns the initial page result with the
  exception's message as its only error: the verdict is false, the six element checks
  are in their default absent shape, and the error list is not empty. An exception
  inside variant detection is caught by the handler of variant detection: its message,
  prefixed with ``Variant detection error: '', is the only error of the page result, and
  the validation goes on, so that the verdict and the element checks are those of the
  checks made. No other exception is recorded: those inside the locator, of the wait
  for network idle and of the clickability check are swallowed. In the orchestrator, once the running document is saved and the page is
  open, the stored page results are those of all configured pages in order, whatever
  happened on each, each one cast to the schema of the document.
\<close>

theorem C4_failing_page_recorded:
  "fst (tryBody pg u s) = navigationError pg u s \<and>
   (\<forall>e. fst (tryBody pg u s) = Some e \<longrightarrow>
      testProductPage pg u s = (initialResult u)\<lparr>errors := [message e]\<rparr> \<and>
      passed (testProductPage pg u s) = False \<and>
      elements (testProductPage pg u s) = emptyElements \<and>
      errors (testProductPage pg u s) = [message e]) \<and>
   errors (testProductPage pg u s) =
     (case navigationError pg u s of
        Some e \<Rightarrow> [message e]
      | None \<Rightarrow>
          (case fst (detectVariants pg) of
             Some e \<Rightarrow> [js ''Variant detection error: '' @ message e]
           | None \<Rightarrow> [])) \<and>
   (saveCreated w (newTestResult w cfg) = Inr () \<and> initializeBrowser w = Inr () \<and>
    newContext w = Inr () \<and> newPage w = Inr () \<longrightarrow>
      productPageTests (results (testResult (snd (runTest w cfg)))) =
        map (\<lambda>(i, u). castPage (objectId w i)
               (testProductPage (pageDuring w i) u (testSettings cfg)))
          (enumerate 0 (productPages cfg)))"
proof -
  have a: "fst (tryBody pg u s) = navigationError pg u s" by (rule tryBody_fst)
  have b: "testProductPage pg u s = (initialResult u)\<lparr>errors := [message e]\<rparr> \<and>
      passed (testProductPage pg u s) = False \<and>
      elements (testProductPage pg u s) = emptyElements \<and>
      errors (testProductPage pg u s) = [message e]" if "fst (tryBody pg u s) = Some e" for e
  proof -
    from that a have "navigationError pg u s = Some e" by simp
    then show ?thesis by (simp add: testProductPage_failed initialResult_def)
  qed
  note c = errors_of_result [of pg u s]
  from a b c pagesOf_validated [of w cfg] show ?thesis
    unfolding pagesOf_def by blast
qed

text \<open>
  In the sample execution the first page cannot be reached and is recorded with its
  error; the second page is validated after it and passes.
\<close>

theorem C4_failing_page_recorded_witness:
  "navigationError brokenPage downUrl settings0 = Some closed \<and>
   fst (tryBody brokenPage downUrl settings0) = Some closed \<and>
   errors (testProductPage brokenPage downUrl settings0) =
     [js ''Target page, context or browser has been closed''] \<and>
   errors (testProductPage shopPage shopUrl settings0) = [] \<and>
   productPageTests (results (testResult (snd (runTest world0 config0)))) =
     [castPage (js ''65f0a1'') (testProductPage brokenPage downUrl settings0),
      castPage (js ''65f0a2'') (testProductPage shopPage shopUrl settings0)] \<and>
   storedPassed (castPage (js ''65f0a2'') (testProductPage shopPage shopUrl settings0))"
proof -
  note n = broken_navigation [of downUrl settings0]
  have h: "saveCreated world0 (newTestResult world0 config0) = Inr ()"
    "initializeBrowser world0 = Inr ()" "newContext world0 = Inr ()" "newPage world0 = Inr ()"
    by (simp_all add: world0_def)
  have p: "pageDuring world0 0 = brokenPage" "pageDuring world0 (Suc 0) = shopPage"
    "objectId world0 0 = js ''65f0a1''" "objectId world0 (Suc 0) = js ''65f0a2''"
    by (simp_all add: world0_def)
  have c: "productPages config0 = [downUrl, shopUrl]" "testSettings config0 = settings0"
    by (simp_all add: config0_def)
  have s: "storedPassed (castPage (js ''65f0a2'') (testProductPage shopPage shopUrl settings0))"
    "errors (testProductPage shopPage shopUrl settings0) = []"
    by (simp_all add: castPage_def shopPage_result)
  from C4_failing_page_recorded [of brokenPage downUrl settings0 world0 config0] n h s
  show ?thesis
    by (simp add: p c closed_def)
qed

text \<open>
  The statement without the amendment fails on the sample page during a reload. The
  enumeration of the option containers throws; the validator catches the exception and
  appends its message to the error list, yet the verdict is true and the title, price
  and add-to-cart checks are filled. And what the document holds of a page result is
  not the page result: the entry of the sample page has no availability check, no
  selector and no strategy.
\<close>

theorem C4_variant_exception_counterexample:
  "navigationError reloadingPage shopUrl settings0 = None \<and>
   detectVariants reloadingPage = (Some destroyed, (0, [], [])) \<and>
   errors (testProductPage reloadingPage shopUrl settings0) =
     [js ''Variant detection error: Execution context was destroyed, most likely because of a navigation''] \<and>
   passed (testProductPage reloadingPage shopUrl settings0) = True \<and>
   present (title (elements (testProductPage reloadingPage shopUrl settings0))) = True \<and>
   elements (testProductPage reloadingPage shopUrl settings0) \<noteq> emptyElements \<and>
   castPage (js ''65f0a2'') (testProductPage shopPage shopUrl settings0) =
     \<lparr>entryId = js ''65f0a2'', storedUrl = shopUrl, storedPassed = True,
      storedElements =
        \<lparr>storedTitle = \<lparr>storedPresent = True, storedText = js ''Blue Widget''\<rparr>,
         storedPrice = \<lparr>storedPresent = True, storedText = js ''$19.99''\<rparr>,
         storedAddToCart = \<lparr>storedCartPresent = True, storedClickable = True\<rparr>,
         storedDescription = \<lparr>storedPresent = True, storedText = replicate 200 120\<rparr>,
         storedVariants = \<lparr>storedVariantsPresent = True, storedCount = 2\<rparr>\<rparr>,
      storedPerformance = \<lparr>loadTime = 2500, timeToInteractive = 0\<rparr>, storedErrors = []\<rparr>"
proof -
  have e: "errors (testProductPage reloadingPage shopUrl settings0) =
     [js ''Variant detection error: Execution context was destroyed, most likely because of a navigation'']"
    by (simp add: reloading_facts(1) destroyed_def js_append [symmetric])
  have t: "present (title (elements (testProductPage reloadingPage shopUrl settings0))) = True"
    by (simp add: reloading_facts)
  have p: "passed (testProductPage reloadingPage shopUrl settings0) = True"
    by (simp add: reloading_facts)
  have d: "elements (testProductPage reloadingPage shopUrl settings0) \<noteq> emptyElements"
  proof
    assume "elements (testProductPage reloadingPage shopUrl settings0) = emptyElements"
    with t show False by (simp add: emptyElements_def emptyTextCheck_def)
  qed
  have c: "castPage (js ''65f0a2'') (testProductPage shopPage shopUrl settings0) =
     \<lparr>entryId = js ''65f0a2'', storedUrl = shopUrl, storedPassed = True,
      storedElements =
        \<lparr>storedTitle = \<lparr>storedPresent = True, storedText = js ''Blue Widget''\<rparr>,
         storedPrice = \<lparr>storedPresent = True, storedText = js ''$19.99''\<rparr>,
         storedAddToCart = \<lparr>storedCartPresent = True, storedClickable = True\<rparr>,
         storedDescription = \<lparr>storedPresent = True, storedText = replicate 200 120\<rparr>,
         storedVariants = \<lparr>storedVariantsPresent = True, storedCount = 2\<rparr>\<rparr>,
      storedPerformance = \<lparr>loadTime = 2500, timeToInteractive = 0\<rparr>, storedErrors = []\<rparr>"
    by (simp add: castPage_def castText_def shopPage_result)
  show ?thesis
    by (simp only: reloading_navigation reloading_variants e t p d c simp_thms)
qed

text \<open>
  C5 (status life cycle), as amended. The document is created with status \<open>running\<close>,
  and no product page is visited before it has been saved in that state. When
  \<open>runTest\<close> returns, the status took the values running, completed, and the completed
  document, stamped with end time and duration, is the last one saved. When \<open>runTest\<close>
  throws, the document in memory is \<open>failed\<close> and stamped with end time and duration,
  and the handler has called save before the exception leaves: when that save succeeds
  the failed document is stored and the exception is the one of the \<open>try\<close>; when it
  throws, nothing more is stored and its exception is the one that leaves. The status
  took the values running, failed, except when the exception came from the save on
  completion: then it was completed before it became failed. It never becomes
  \<open>running\<close> again.
\<close>

theorem C5_status_life_cycle:
  "(case runTest w cfg of
      (Inr t, st) \<Rightarrow>
        statuses (log st) = [Running, Completed] \<and> t = testResult st \<and>
        status t = Completed \<and> endTime t = Some (completedClock w) \<and>
        duration t = Some (completedClock w - startClock w) \<and> last (log st) = Saved t
    | (Inl e, st) \<Rightarrow>
        status (testResult st) = Failed \<and> endTime (testResult st) = Some (failedClock w) \<and>
        duration (testResult st) = Some (failedClock w - startClock w) \<and>
        (statuses (log st) = [Running, Failed] \<or>
         statuses (log st) = [Running, Completed, Failed] \<and>
         isl (saveCompleted w ((testResult st)\<lparr>status := Completed,
                endTime := Some (completedClock w),
                duration := Some (completedClock w - startClock w)\<rparr>))) \<and>
        (case saveFailed w (testResult st) of
           Inr _ \<Rightarrow> last (log st) = Saved (testResult st) \<and> fst (tryRun w cfg) = Some e
         | Inl e2 \<Rightarrow> last (log st) = SaveFailed \<and> e = e2)) \<and>
   hd (log (snd (runTest w cfg))) = Status Running \<and>
   status (newTestResult w cfg) = Running \<and>
   (list_ex isNavigated (log (snd (runTest w cfg))) \<longrightarrow>
      take 2 (log (snd (runTest w cfg))) = [Status Running, Saved (newTestResult w cfg)])"
proof (cases "beforeComplete w cfg")
  case (Pair thrown st)
  have J: "beforeCompletion w cfg (thrown, st)"
    using beforeComplete_before [of w cfg] Pair by simp
  have n: "status (newTestResult w cfg) = Running"
    by (simp add: newTestResult_def)
  show ?thesis
  proof (cases thrown)
    case (Some e)
    have t: "tryRun w cfg = (Some e, st)"
      by (simp add: tryRun_eq Pair Some andThen_def)
    from J Some show ?thesis
      by (simp add: runTest_def t handleFailure_def Let_def beforeCompletion_def
          statuses_append hd_append_long n list_ex_iff split: sum.splits)
  next
    case None
    define tr where "tr = (testResult st)\<lparr>status := Completed,
       endTime := Some (completedClock w),
       duration := Some (completedClock w - startTime (testResult st))\<rparr>"
    show ?thesis
    proof (cases "saveCompleted w tr")
      case (Inr x)
      have t: "tryRun w cfg =
        (None, st\<lparr>testResult := tr, log := log st @ [Status Completed, Saved tr]\<rparr>)"
        by (simp add: tryRun_eq Pair None andThen_def complete_def Let_def tr_def [symmetric] Inr)
      from J None show ?thesis
        by (simp add: runTest_def t beforeCompletion_def statuses_append hd_append_long n
            list_ex_iff tr_def)
    next
      case (Inl e)
      have t: "tryRun w cfg =
        (Some e, st\<lparr>testResult := tr, log := log st @ [Status Completed, SaveFailed]\<rparr>)"
        by (simp add: tryRun_eq Pair None andThen_def complete_def Let_def tr_def [symmetric] Inl)
      have s: "startTime (testResult st) = startClock w"
        using J by (simp add: beforeCompletion_def)
      have restore: "tr\<lparr>status := Completed, endTime := Some (completedClock w),
           duration := Some (completedClock w - startClock w)\<rparr> = tr"
        by (simp add: tr_def s)
      have trs: "startTime tr = startClock w"
        by (simp add: tr_def s)
      from J None show ?thesis
        by (simp add: runTest_def t handleFailure_def Let_def beforeCompletion_def
            statuses_append hd_append_long n list_ex_iff trs restore Inl split: sum.splits)
    qed
  qed
qed

text \<open>
  The sample execution visits two pages and completes.
\<close>

theorem C5_status_life_cycle_witness:
  "list_ex isNavigated (log (snd (runTest world0 config0))) \<and>
   take 2 (log (snd (runTest world0 config0))) =
     [Status Running, Saved (newTestResult world0 config0)] \<and>
   statuses (log (snd (runTest world0 config0))) = [Running, Completed] \<and>
   status (testResult (snd (runTest world0 config0))) = Completed"
proof -
  have n: "list_ex isNavigated (log (snd (runTest world0 config0)))"
    by (simp add: world0_log)
  obtain t st where r: "runTest world0 config0 = (Inr t, st)"
    using world0_returns by (cases "runTest world0 config0") auto
  from C5_status_life_cycle [of world0 config0] n show ?thesis
    by (auto simp: r)
qed

text \<open>
  The statement without the amendment fails where a save is rejected. When the save on
  completion is rejected, the status is assigned a terminal value twice, completed and
  then failed. When the store rejects every save, the exception leaves \<open>runTest\<close>
  although no document was ever stored.
\<close>

theorem C5_rejected_save_counterexample:
  "statuses (log (snd (runTest flakyWorld config0))) = [Running, Completed, Failed] \<and>
   fst (runTest downWorld config0) = Inl storeError \<and>
   log (snd (runTest downWorld config0)) = [Status Running, SaveFailed, Status Failed, SaveFailed] \<and>
   list_ex isSaved (log (snd (runTest downWorld config0))) = False"
  by (simp add: flaky_statuses down_run)

text \<open>
  C6 (first visible element). For a configuration without content patterns, on a page
  whose handles fail as Playwright's do (\<open>cssBound\<close>: a detached node is not visible,
  and once the inspection of a match throws, that of every later match of the same
  enumeration throws), the locator returns the first candidate that is visible and has
  non-empty trimmed text, the candidates being all matches of all selectors, in selector
  order and then in document order; the result is tagged \<open>css\<close> and carries the
  selector of the candidate. When there is no such candidate the result is that of the
  later strategies, which is the result of the same configuration without selectors.
\<close>

theorem C6_first_visible:
  assumes "contentPatterns c = []" and "cssBound pg m 0 (selectors c)"
  shows "findElementWithMultipleStrategies pg m c =
    (case specFirstVisible pg m (selectors c) of
       Some r \<Rightarrow> Inr (Some r)
     | None \<Rightarrow> findElementWithMultipleStrategies pg m (c\<lparr>selectors := []\<rparr>))"
  by (simp add: findElementWithMultipleStrategies_def assms cssStrategy_spec
      specCssStrategy_plain specFirstVisible_def orElseTry_def split: option.splits)

text \<open>
  On the page with three headings the first is detached and the second holds only a
  no-break space, which trimming removes; the third is returned.
\<close>

theorem C6_first_visible_witness:
  "contentPatterns titleConfig = [] \<and>
   cssBound headingsPage atTitle 0 (selectors titleConfig) \<and>
   queryAll headingsPage (atTitle @ [1, 0]) (js ''h1'') = Inr [1, 2, 3] \<and>
   isVisible headingsPage (atTitle @ [1, 0, 0]) (Handle 1) = Inr False \<and>
   isVisible headingsPage (atTitle @ [1, 0, 1]) (Handle 2) = Inr True \<and>
   textContent headingsPage (atTitle @ [1, 0, 1]) (Handle 2) = Inr (Some [160]) \<and>
   elementContent headingsPage (atTitle @ [1, 0, 1]) 2 = Inr [] \<and>
   specFirstVisible headingsPage atTitle (selectors titleConfig) =
     Some \<lparr>element = Handle 3, foundText = js ''Blue Widget'', foundSelector = js ''h1'',
           foundStrategy = js ''css''\<rparr> \<and>
   findElementWithMultipleStrategies headingsPage atTitle titleConfig =
     Inr (Some \<lparr>element = Handle 3, foundText = js ''Blue Widget'', foundSelector = js ''h1'',
                foundStrategy = js ''css''\<rparr>)"
proof -
  have h1: "contentPatterns titleConfig = []"
    by (simp add: titleConfig_def)
  have q: "queryAll headingsPage (atTitle @ [1, 0]) (js ''h1'') = Inr [1, 2, 3]"
    "isVisible headingsPage (atTitle @ [1, 0, 0]) (Handle 1) = Inr False"
    "isVisible headingsPage (atTitle @ [1, 0, 1]) (Handle 2) = Inr True"
    "textContent headingsPage (atTitle @ [1, 0, 1]) (Handle 2) = Inr (Some [160])"
    by (simp_all add: headingsPage_def blankPage_def)
  have f: "findElementWithMultipleStrategies headingsPage atTitle titleConfig =
     Inr (Some \<lparr>element = Handle 3, foundText = js ''Blue Widget'', foundSelector = js ''h1'',
                foundStrategy = js ''css''\<rparr>)"
    using C6_first_visible [OF h1 headings_bound]
    by (simp only: headings_spec option.case)
  show ?thesis
    by (simp only: h1 headings_bound q headings_second f headings_spec simp_thms)
qed

text \<open>
  C7 (two-tier variant detection), as amended. After a successful navigation the option
  containers are enumerated and, in order, asked for their options (\<open>button\<close>, \<open>input\<close>,
  \<open>select\<close>, \<open>.swatch\<close>, \<open>[role="button"]\<close>); the first container that has at least
  one option gives the count, with selector \<open>container-based\<close> and strategy
  \<open>container\<close>. Only when every container has none does the validator fall back to the
  locator and count all elements sharing the matched selector. When a query throws the
  count stays zero. The variants check is present exactly when the count is positive.
\<close>

theorem C7_first_container_with_options:
  "variants (elements (testProductPage pg u s)) =
     (case navigationError pg u s of
        Some e \<Rightarrow> emptyVariants
      | None \<Rightarrow>
         (case queryAll pg atContainers containerSelector of
            Inl e \<Rightarrow> emptyVariants
          | Inr containers \<Rightarrow>
              (case find (\<lambda>(k, c). subQueryAll pg (atContainers @ [k]) c optionSelector \<noteq> Inr [])
                      (enumerate 0 containers) of
                 Some (k, c) \<Rightarrow>
                   (case subQueryAll pg (atContainers @ [k]) c optionSelector of
                      Inl e \<Rightarrow> emptyVariants
                    | Inr options \<Rightarrow>
                        \<lparr>present = True, selector = js ''container-based'',
                         strategy = js ''container'', count = length options\<rparr>)
               | None \<Rightarrow> individualVariants pg))) \<and>
   present (variants (elements (testProductPage pg u s))) =
     (count (variants (elements (testProductPage pg u s))) > 0)"
proof (cases "navigationError pg u s")
  case (Some e)
  then show ?thesis
    by (simp add: testProductPage_failed initialResult_def emptyElements_def emptyVariants_def)
next
  case None
  note v = variants_of_result [OF None]
  have p: "present (variants (elements (testProductPage pg u s))) =
     (count (variants (elements (testProductPage pg u s))) > 0)"
    unfolding v by (simp add: emptyVariants_def split: prod.splits)
  show ?thesis using p v detectVariants_eq [of pg] None by simp
qed

text \<open>
  On the sample page the single container holds two options.
\<close>

theorem C7_first_container_with_options_witness:
  "navigationError shopPage shopUrl settings0 = None \<and>
   queryAll shopPage atContainers containerSelector = Inr [6] \<and>
   subQueryAll shopPage (atContainers @ [0]) 6 optionSelector = Inr [7, 9] \<and>
   variants (elements (testProductPage shopPage shopUrl settings0)) =
     \<lparr>present = True, selector = js ''container-based'', strategy = js ''container'',
      count = 2\<rparr>"
proof -
  have q: "queryAll shopPage atContainers containerSelector = Inr [6]"
    by (simp add: shop_defs)
  have o: "subQueryAll shopPage mo 6 optionSelector = Inr [7, 9]" for mo
    by (simp add: shopPage_def blankPage_def)
  from C7_first_container_with_options [of shopPage shopUrl settings0] show ?thesis
    by (simp add: shop_navigation q o)
qed

text \<open>
  The statement without the amendment fails where the first container found holds no
  option: counting inside the first container found gives zero and the fall-back would
  report the two elements of \<open>[class*="option" i]\<close>, but the code goes on to the second
  container and reports its three options.
\<close>

theorem C7_first_container_counterexample:
  "queryAll twoContainersPage atContainers containerSelector = Inr [10, 11] \<and>
   subQueryAll twoContainersPage (atContainers @ [0]) 10 optionSelector = Inr [] \<and>
   specFirstContainerCount twoContainersPage = 0 \<and>
   specVariants twoContainersPage =
     \<lparr>present = True, selector = optionClass, strategy = js ''css'', count = 2\<rparr> \<and>
   variants (elements (testProductPage twoContainersPage shopUrl settings0)) =
     \<lparr>present = True, selector = js ''container-based'', strategy = js ''container'',
      count = 3\<rparr>"
proof -
  have c: "specFirstContainerCount twoContainersPage = 0"
    by (simp add: specFirstContainerCount_def two_containers)
  show ?thesis by (simp only: two_containers c two_spec two_result simp_thms)
qed



text \<open>
  C9 (add-to-cart clickability). After a successful navigation, when the add-to-cart
  element is located its clickable flag is the conjunction of its enabled and visible
  states, both read after the locator has returned, and true when reading the enabled
  state throws or, the element being enabled, when reading the visible state throws.
  When no element is located, or the navigation failed, the flag keeps its default
  false.
\<close>

theorem C9_clickable_flag:
  "clickable (addToCart (elements (testProductPage pg u s))) =
     (case navigationError pg u s of
        Some e \<Rightarrow> False
      | None \<Rightarrow>
          (case located pg atCart cartConfig of
             None \<Rightarrow> False
           | Some c \<Rightarrow>
               (case isEnabled pg atClick (element c) of
                  Inl e \<Rightarrow> True
                | Inr enabled \<Rightarrow>
                    enabled \<and> (case isVisible pg atClick (element c) of Inl e \<Rightarrow> True | Inr v \<Rightarrow> v)))) \<and>
   present (addToCart (elements (testProductPage pg u s))) =
     (case navigationError pg u s of
        Some e \<Rightarrow> False
      | None \<Rightarrow> located pg atCart cartConfig \<noteq> None)"
proof (cases "navigationError pg u s")
  case (Some e)
  then show ?thesis
    by (simp add: testProductPage_failed initialResult_def emptyElements_def)
next
  case None
  show ?thesis
    by (simp add: None testProductPage_ok [OF None] frames checkCart_def find_located
        isClickable_eq Let_def emptyElements_def split: option.splits)
qed

text \<open>
  A button that the locator found visible: enabled and still visible, it is clickable;
  no longer visible, or disabled, it is not; when reading its visibility or its enabled
  state throws, it is reported clickable. Where no button is found, and where the page
  cannot be reached, the flag is false.
\<close>

theorem C9_clickable_flag_witness:
  "located (buttonPage (Inr True) (Inr True)) atCart cartConfig =
     Some \<lparr>element = Handle 3, foundText = js ''Add to Cart'', foundSelector = js ''button'',
           foundStrategy = js ''css''\<rparr> \<and>
   clickable (addToCart (elements
     (testProductPage (buttonPage (Inr True) (Inr True)) shopUrl settings0))) = True \<and>
   clickable (addToCart (elements
     (testProductPage (buttonPage (Inr True) (Inr False)) shopUrl settings0))) = False \<and>
   clickable (addToCart (elements
     (testProductPage (buttonPage (Inr False) (Inr True)) shopUrl settings0))) = False \<and>
   clickable (addToCart (elements
     (testProductPage (buttonPage (Inr True) (Inl destroyed)) shopUrl settings0))) = True \<and>
   clickable (addToCart (elements
     (testProductPage (buttonPage (Inl destroyed) (Inr False)) shopUrl settings0))) = True \<and>
   present (addToCart (elements
     (testProductPage (buttonPage (Inr True) (Inr False)) shopUrl settings0))) = True \<and>
   clickable (addToCart (elements (testProductPage blankPage shopUrl settings0))) = False \<and>
   clickable (addToCart (elements (testProductPage brokenPage shopUrl settings0))) = False"
proof -
  have n: "located blankPage atCart cartConfig = None"
    by (simp add: located_def find_blank)
  show ?thesis
    using C9_clickable_flag [of "buttonPage (Inr True) (Inr True)" shopUrl settings0]
      C9_clickable_flag [of "buttonPage (Inr True) (Inr False)" shopUrl settings0]
      C9_clickable_flag [of "buttonPage (Inr False) (Inr True)" shopUrl settings0]
      C9_clickable_flag [of "buttonPage (Inr True) (Inl destroyed)" shopUrl settings0]
      C9_clickable_flag [of "buttonPage (Inl destroyed) (Inr False)" shopUrl settings0]
      C9_clickable_flag [of blankPage shopUrl settings0]
      C9_clickable_flag [of brokenPage shopUrl settings0]
    by (simp add: button_cart button_navigation button_calls blank_navigation
        broken_navigation n)
qed

text \<open>
  C10 (description truncated). The stored description text is the first 200 characters
  of the located element's text, so its length is at most 200 in every page result; the
  stored title, price and availability texts are the located texts, whole.
\<close>

theorem C10_description_truncated:
  "length (textOf (description (elements (testProductPage pg u s)))) \<le> 200 \<and>
   textOf (description (elements (testProductPage pg u s))) =
     (case navigationError pg u s of
        Some e \<Rightarrow> []
      | None \<Rightarrow> (case located pg atDescription descConfig of None \<Rightarrow> [] | Some d \<Rightarrow> take 200 (foundText d))) \<and>
   textOf (title (elements (testProductPage pg u s))) =
     (case navigationError pg u s of
        Some e \<Rightarrow> []
      | None \<Rightarrow> (case located pg atTitle titleConfig of None \<Rightarrow> [] | Some t \<Rightarrow> foundText t)) \<and>
   textOf (price (elements (testProductPage pg u s))) =
     (case navigationError pg u s of
        Some e \<Rightarrow> []
      | None \<Rightarrow> (case located pg atPrice priceConfig of None \<Rightarrow> [] | Some p \<Rightarrow> foundText p)) \<and>
   textOf (availability (elements (testProductPage pg u s))) =
     (case navigationError pg u s of
        Some e \<Rightarrow> []
      | None \<Rightarrow> (case located pg atAvailability availConfig of None \<Rightarrow> [] | Some a \<Rightarrow> foundText a))"
proof (cases "navigationError pg u s")
  case (Some e)
  then show ?thesis
    by (simp add: testProductPage_failed initialResult_def emptyElements_def emptyTextCheck_def)
next
  case None
  have d: "textOf (description (elements (testProductPage pg u s))) =
     (case located pg atDescription descConfig of None \<Rightarrow> [] | Some d \<Rightarrow> take 200 (foundText d))"
    by (simp add: testProductPage_ok [OF None] frames setDescription_def substring0_def
        emptyElements_def emptyTextCheck_def split: option.splits)
  have t: "textOf (title (elements (testProductPage pg u s))) =
     (case located pg atTitle titleConfig of None \<Rightarrow> [] | Some t \<Rightarrow> foundText t)"
    by (simp add: testProductPage_ok [OF None] frames setTitle_def
        emptyElements_def emptyTextCheck_def split: option.splits)
  have p: "textOf (price (elements (testProductPage pg u s))) =
     (case located pg atPrice priceConfig of None \<Rightarrow> [] | Some p \<Rightarrow> foundText p)"
    by (simp add: testProductPage_ok [OF None] frames setPrice_def
        emptyElements_def emptyTextCheck_def split: option.splits)
  have a: "textOf (availability (elements (testProductPage pg u s))) =
     (case located pg atAvailability availConfig of None \<Rightarrow> [] | Some a \<Rightarrow> foundText a)"
    by (simp add: testProductPage_ok [OF None] frames setAvailability_def
        emptyElements_def emptyTextCheck_def split: option.splits)
  have l: "length (textOf (description (elements (testProductPage pg u s)))) \<le> 200"
    unfolding d by (simp split: option.splits)
  show ?thesis using None d t p a l by simp
qed

text \<open>
  On the sample page the description element has 250 characters, of which 200 are
  stored; the title is stored whole.
\<close>

theorem C10_description_truncated_witness:
  "located shopPage atDescription descConfig =
     Some \<lparr>element = Handle 4, foundText = replicate 250 120,
           foundSelector = js ''.description'', foundStrategy = js ''css''\<rparr> \<and>
   length (textOf (description (elements (testProductPage shopPage shopUrl settings0)))) = 200 \<and>
   textOf (title (elements (testProductPage shopPage shopUrl settings0))) = js ''Blue Widget''"
  using C10_description_truncated [of shopPage shopUrl settings0]
  unfolding shop_description shop_title shop_navigation
  by simp

end
